theory Spec2Isabelle
  imports Main "HOL-Library.Sublist"
begin

section \<open>The list tool: narrowing a datasource listing by the bounded context\<close>

text \<open>
  Source: \<^verbatim>\<open>src/tools/listDatasources/listDatasources.ts\<close>.

  Modelled from the spec: the \<^verbatim>\<open>DataSource\<close> type is imported from the REST SDK. A
  resource carries an identifier, a display name and the identifier of its owning
  project; \<^verbatim>\<open>constrainDatasources\<close> reads \<^verbatim>\<open>datasource.id\<close> and
  \<^verbatim>\<open>datasource.project.id\<close>.
\<close>

record DataSource =
  ds_id :: string
  ds_name :: string
  project_id :: string

text \<open>
  Modelled from the spec: the \<^verbatim>\<open>BoundedContext\<close> type is imported from the
  configuration module. It holds an optional set of allowed project identifiers and an
  optional set of allowed datasource identifiers; an absent set is \<open>None\<close>. A
  \<^verbatim>\<open>Set\<close> object is truthy in JavaScript also when it is empty, so
  \<^verbatim>\<open>if (projectIds)\<close> tests presence only.
\<close>

record BoundedContext =
  projectIds :: "string set option"
  datasourceIds :: "string set option"

text \<open>
  The two shapes of \<^verbatim>\<open>ConstrainedResult\<close> that \<^verbatim>\<open>constrainDatasources\<close> builds:
  \<^verbatim>\<open>{ type: 'empty', message }\<close> and \<^verbatim>\<open>{ type: 'success', result }\<close>.
\<close>

datatype ConstrainedResult =
  Empty string
| Success "DataSource list"

text \<open>The \<^verbatim>\<open>type\<close> discriminant of a result, as the string the source writes.\<close>

fun result_type :: "ConstrainedResult \<Rightarrow> string" where
  "result_type (Empty m) = ''empty''"
| "result_type (Success r) = ''success''"

text \<open>\<^verbatim>\<open>Array.prototype.join\<close> on an array of strings.\<close>

fun join :: "string \<Rightarrow> string list \<Rightarrow> string" where
  "join sep [] = []"
| "join sep [x] = x"
| "join sep (x # y # ys) = x @ sep @ join sep (y # ys)"

definition no_datasources_message :: string where
  "no_datasources_message =
     ''No datasources were found. Either none exist or you do not have permission to view them.''"

definition all_filtered_message :: string where
  "all_filtered_message = join '' ''
     [''The set of allowed data sources that can be queried is limited by the server configuration.'',
      ''While data sources were found, they were all filtered out by the server configuration.'']"

text \<open>The two successive \<^verbatim>\<open>filter\<close> calls of \<^verbatim>\<open>constrainDatasources\<close> (lines 102-109).\<close>

definition narrowByProjects :: "BoundedContext \<Rightarrow> DataSource list \<Rightarrow> DataSource list" where
  "narrowByProjects boundedContext datasources =
     (case projectIds boundedContext of
        Some ps \<Rightarrow> filter (\<lambda>datasource. project_id datasource \<in> ps) datasources
      | None \<Rightarrow> datasources)"

definition narrowByDatasources :: "BoundedContext \<Rightarrow> DataSource list \<Rightarrow> DataSource list" where
  "narrowByDatasources boundedContext datasources =
     (case datasourceIds boundedContext of
        Some ds \<Rightarrow> filter (\<lambda>datasource. ds_id datasource \<in> ds) datasources
      | None \<Rightarrow> datasources)"

definition narrowed :: "BoundedContext \<Rightarrow> DataSource list \<Rightarrow> DataSource list" where
  "narrowed boundedContext datasources =
     narrowByDatasources boundedContext (narrowByProjects boundedContext datasources)"

definition constrainDatasources :: "DataSource list \<Rightarrow> BoundedContext \<Rightarrow> ConstrainedResult" where
  "constrainDatasources datasources boundedContext =
     (if length datasources = 0 then Empty no_datasources_message
      else
        let datasources' = narrowed boundedContext datasources
        in if length datasources' = 0 then Empty all_filtered_message
           else Success datasources')"

section \<open>JavaScript values and string helpers used by the query tools\<close>

text \<open>
  Source: \<^verbatim>\<open>src/tools/queryDatasource/queryDatasource.ts\<close>.

  Values the code handles as \<^verbatim>\<open>any\<close> are JSON values. \<^verbatim>\<open>undefined\<close> is \<open>None\<close>
  of \<open>json option\<close>; \<^verbatim>\<open>null\<close> is \<open>JNull\<close>. An object is the list of its
  key-value pairs, read with \<open>map_of\<close>.
\<close>

datatype json =
  JNull
| JBool bool
| JNum int
| JStr string
| JArr "json list"
| JObj "(string \<times> json) list"

text \<open>
  Optional chaining \<^verbatim>\<open>v?.k\<close>: \<^verbatim>\<open>undefined\<close> when \<^verbatim>\<open>v\<close> is \<^verbatim>\<open>null\<close> or
  \<^verbatim>\<open>undefined\<close>, the property otherwise. None of the keys read by the code is a
  property of a string, number, boolean or array, so these give \<^verbatim>\<open>undefined\<close>.
\<close>

fun optProp :: "string \<Rightarrow> json option \<Rightarrow> json option" where
  "optProp k (Some (JObj kvs)) = map_of kvs k"
| "optProp k v = None"

text \<open>\<^verbatim>\<open>v?.fields\<close>\<close>

abbreviation fieldsOf :: "json option \<Rightarrow> json option" where
  "fieldsOf v \<equiv> optProp ''fields'' v"

text \<open>Nullish coalescing \<^verbatim>\<open>a ?? b\<close>: \<^verbatim>\<open>b\<close> when \<^verbatim>\<open>a\<close> is \<^verbatim>\<open>null\<close> or \<^verbatim>\<open>undefined\<close>.\<close>

fun nullish :: "json option \<Rightarrow> bool" where
  "nullish None = True"
| "nullish (Some JNull) = True"
| "nullish (Some v) = False"

definition coalesce :: "json option \<Rightarrow> json option \<Rightarrow> json option" where
  "coalesce a b = (if nullish a then b else a)"

fun orDefault :: "json option \<Rightarrow> json \<Rightarrow> json" where
  "orDefault None d = d"
| "orDefault (Some JNull) d = d"
| "orDefault (Some v) d = v"

fun orEmpty :: "'a list option \<Rightarrow> 'a list" where
  "orEmpty None = []"
| "orEmpty (Some xs) = xs"

text \<open>
  \<^verbatim>\<open>String.prototype.toLowerCase\<close> and \<^verbatim>\<open>String.prototype.trim\<close> fold and trim
  by the Unicode rules of the runtime. The model does not fix them: they are the
  functions \<open>toLowerCase\<close> and \<open>trim\<close> of the environment below, and every property
  is proved for whatever functions the environment holds. The two definitions that
  follow are their restriction to ASCII (the letters \<^verbatim>\<open>A\<close> to \<^verbatim>\<open>Z\<close>; tab, line
  feed, vertical tab, form feed, carriage return and space), which the example
  environments use on ASCII names.
\<close>

definition ascii_toLowerCaseChar :: "char \<Rightarrow> char" where
  "ascii_toLowerCaseChar c =
     (case map_of (zip ''ABCDEFGHIJKLMNOPQRSTUVWXYZ'' ''abcdefghijklmnopqrstuvwxyz'') c of
        Some l \<Rightarrow> l
      | None \<Rightarrow> c)"

definition ascii_toLowerCase :: "string \<Rightarrow> string" where
  "ascii_toLowerCase s = map ascii_toLowerCaseChar s"

definition ascii_isWhiteSpace :: "char \<Rightarrow> bool" where
  "ascii_isWhiteSpace c = (c \<in> set [CHR 0x09, CHR 0x0A, CHR 0x0B, CHR 0x0C, CHR 0x0D, CHR 0x20])"

definition ascii_trim :: "string \<Rightarrow> string" where
  "ascii_trim s = rev (dropWhile ascii_isWhiteSpace (rev (dropWhile ascii_isWhiteSpace s)))"

text \<open>\<open>str_includes s t\<close> is \<^verbatim>\<open>s.includes(t)\<close>.\<close>

fun str_includes :: "string \<Rightarrow> string \<Rightarrow> bool" where
  "str_includes [] t = (t = [])"
| "str_includes (c # cs) t = (prefix t (c # cs) \<or> str_includes cs t)"

definition dquote :: string where
  "dquote = [CHR 0x22]"

section \<open>Requests, remote capabilities and the call trace\<close>

text \<open>
  The structured query built by \<^verbatim>\<open>buildQueryFromQuestion\<close> has a list of fields and a
  row limit; the structured-query tool passes the caller's query through unchanged. The
  field written \<^verbatim>\<open>function\<close> in the source is \<open>func\<close> here, and \<^verbatim>\<open>fields\<close>,
  \<^verbatim>\<open>filters\<close> and \<^verbatim>\<open>limit\<close> carry the prefix \<open>q_\<close>. The caption is a JSON
  value: \<^verbatim>\<open>extractFirstFieldCaption\<close> returns whatever the metadata holds.
\<close>

record QueryField =
  fieldCaption :: json
  func :: "string option"
  fieldAlias :: "string option"

record Query =
  q_fields :: "QueryField list"
  q_filters :: "json option"
  q_limit :: "int option"

record Datasource =
  datasourceLuid :: string
  connections :: "json list option"

record Options =
  returnFormat :: string
  debug :: bool
  disaggregate :: bool

record QueryRequest =
  datasource :: Datasource
  query :: Query
  options :: Options

type_synonym QueryOutput = json

type_synonym ZodiosError = string

text \<open>
  Modelled from the spec: the \<^verbatim>\<open>TableauError\<close> schema is imported from the VizQL Data
  Service SDK. A remote-service error payload is a code and a message.
\<close>

record TableauError =
  errorCode :: "string option"
  te_message :: "string option"

text \<open>
  The error of a \<^verbatim>\<open>queryDatasource\<close> or \<^verbatim>\<open>readMetadata\<close> result, as the code tells
  the cases apart: an instance of \<^verbatim>\<open>ZodiosError\<close>, the string \<^verbatim>\<open>'feature-disabled'\<close>,
  or a remote error payload.
\<close>

datatype RemoteError =
  ZodiosErr ZodiosError
| FeatureDisabledSignal
| RemoteTableauError TableauError

text \<open>
  Modelled from the spec: the element type of the error array of \<^verbatim>\<open>validateFilterValues\<close>
  is declared in the validator module. A finding names the field and the offending
  value and carries a reason; the tools read its \<^verbatim>\<open>message\<close> only.
\<close>

record FilterValidationError =
  fv_field :: string
  fv_value :: string
  fv_message :: string

text \<open>The result of \<^verbatim>\<open>resourceAccessChecker.isDatasourceAllowed\<close>.\<close>

datatype AllowedResult =
  Allowed
| NotAllowed string

text \<open>
  An element of a listing page as the resolver reads it (\<^verbatim>\<open>list: any[]\<close>): the
  properties \<^verbatim>\<open>luid\<close>, \<^verbatim>\<open>id\<close> and \<^verbatim>\<open>name\<close>, each possibly absent.
\<close>

record ListedDatasource =
  ld_luid :: "string option"
  ld_id :: "string option"
  ld_name :: "string option"

text \<open>
  The collaborators of the tools, which live outside this file of the source, are the
  fields of an environment: the configuration flag, the access checker, the credentials
  lookup, the filter-value validator, the three remote capabilities and the two string
  built-ins of the runtime.
  \<^verbatim>\<open>listDatasources\<close> takes the page size and the page number and returns the
  \<^verbatim>\<open>datasources\<close> property of the response, which may be \<^verbatim>\<open>undefined\<close>.
  \<^verbatim>\<open>useRestApi\<close> runs its callback and returns the callback's result. Each
  collaborator is a function of its arguments and returns; an exception thrown by one
  would leave the callback and be handled by \<^verbatim>\<open>logAndExecute\<close>, outside this file,
  and is not modelled.
\<close>

record Env =
  disableQueryDatasourceFilterValidation :: bool
  isDatasourceAllowed :: "string \<Rightarrow> AllowedResult"
  getDatasourceCredentials :: "string \<Rightarrow> json list option"
  validateFilterValues :: "Query \<Rightarrow> Datasource \<Rightarrow> FilterValidationError list + unit"
  queryDatasource :: "QueryRequest \<Rightarrow> RemoteError + QueryOutput"
  readMetadata :: "Datasource \<Rightarrow> RemoteError + json"
  listDatasources :: "nat \<Rightarrow> nat \<Rightarrow> ListedDatasource list option"
  toLowerCase :: "string \<Rightarrow> string"
  trim :: "string \<Rightarrow> string"

text \<open>
  Every awaited call of a collaborator is recorded, in order, so that a property such
  as "the remote query is never made" is a statement about the trace.
\<close>

datatype Call =
  ListDatasourcesCall nat nat
| IsDatasourceAllowedCall string
| ReadMetadataCall Datasource
| ValidateFilterValuesCall Query Datasource
| QueryDatasourceCall QueryRequest

text \<open>\<^verbatim>\<open>if (credentials) datasource.connections = credentials\<close>: an array is truthy.\<close>

definition attachCredentials :: "Env \<Rightarrow> Datasource \<Rightarrow> Datasource" where
  "attachCredentials env ds =
     (case getDatasourceCredentials env (datasourceLuid ds) of
        Some credentials \<Rightarrow> ds\<lparr>connections := Some credentials\<rparr>
      | None \<Rightarrow> ds)"

section \<open>The structured-query tool\<close>

text \<open>
  \<^verbatim>\<open>QueryDatasourceError\<close> (lines 32-47). A \<^verbatim>\<open>ZodiosError\<close> from the remote call is
  returned as it is (line 131) and has no \<^verbatim>\<open>type\<close> property.
\<close>

datatype QueryDatasourceError =
  FeatureDisabled
| DatasourceNotAllowed string
| FilterValidation string
| TableauErr TableauError
| RawZodiosError ZodiosError

fun error_type :: "QueryDatasourceError \<Rightarrow> string option" where
  "error_type FeatureDisabled = Some ''feature-disabled''"
| "error_type (DatasourceNotAllowed m) = Some ''datasource-not-allowed''"
| "error_type (FilterValidation m) = Some ''filter-validation''"
| "error_type (TableauErr e) = Some ''tableau-error''"
| "error_type (RawZodiosError z) = None"

text \<open>Lines 127-140: the remote call's result, translated.\<close>

definition queryDatasource_result :: "Env \<Rightarrow> QueryRequest \<Rightarrow> QueryDatasourceError + QueryOutput" where
  "queryDatasource_result env queryRequest =
     (case queryDatasource env queryRequest of
        Inl (ZodiosErr z) \<Rightarrow> Inl (RawZodiosError z)
      | Inl FeatureDisabledSignal \<Rightarrow> Inl FeatureDisabled
      | Inl (RemoteTableauError e) \<Rightarrow> Inl (TableauErr e)
      | Inr result \<Rightarrow> Inr result)"

text \<open>
  Lines 107-141, the callback given to \<^verbatim>\<open>useRestApi\<close>. It reads \<^verbatim>\<open>query\<close> and
  \<^verbatim>\<open>datasource\<close>, which are the fields of \<^verbatim>\<open>queryRequest\<close>.
\<close>

definition queryDatasource_callback ::
  "Env \<Rightarrow> QueryRequest \<Rightarrow> (QueryDatasourceError + QueryOutput) \<times> Call list" where
  "queryDatasource_callback env queryRequest =
     (if \<not> disableQueryDatasourceFilterValidation env then
        (case validateFilterValues env (query queryRequest) (datasource queryRequest) of
           Inl errors \<Rightarrow>
             (Inl (FilterValidation (join '', '' (map fv_message errors))),
              [ValidateFilterValuesCall (query queryRequest) (datasource queryRequest)])
         | Inr ok \<Rightarrow>
             (queryDatasource_result env queryRequest,
              [ValidateFilterValuesCall (query queryRequest) (datasource queryRequest),
               QueryDatasourceCall queryRequest]))
      else
        (queryDatasource_result env queryRequest, [QueryDatasourceCall queryRequest]))"

text \<open>Lines 70-143, the callback of \<^verbatim>\<open>queryDatasourceTool.logAndExecute\<close>.\<close>

definition queryDatasourceTool ::
  "Env \<Rightarrow> string \<Rightarrow> Query \<Rightarrow> (QueryDatasourceError + QueryOutput) \<times> Call list" where
  "queryDatasourceTool env luid q =
     (case isDatasourceAllowed env luid of
        NotAllowed message \<Rightarrow>
          (Inl (DatasourceNotAllowed message), [IsDatasourceAllowedCall luid])
      | Allowed \<Rightarrow>
          (let ds = attachCredentials env \<lparr>datasourceLuid = luid, connections = None\<rparr>;
               opts = \<lparr>returnFormat = ''OBJECTS'', debug = True, disaggregate = False\<rparr>;
               queryRequest = \<lparr>datasource = ds, query = q, options = opts\<rparr>;
               (outcome, calls) = queryDatasource_callback env queryRequest
           in (outcome, IsDatasourceAllowedCall luid # calls)))"

section \<open>The natural-language tool\<close>

text \<open>
  \<^verbatim>\<open>SimpleQueryDatasourceError\<close> (lines 186-201). It has no \<^verbatim>\<open>'filter-validation'\<close>
  member. The payload of its \<^verbatim>\<open>'tableau-error'\<close> member is a remote error payload or,
  at line 381, a \<^verbatim>\<open>ZodiosError\<close>.
\<close>

datatype SimpleErrorPayload =
  TableauPayload TableauError
| ZodiosPayload ZodiosError

datatype SimpleQueryDatasourceError =
  SimpleDatasourceNotFound string
| SimpleDatasourceNotAllowed string
| SimpleFeatureDisabled
| SimpleTableauError SimpleErrorPayload

fun simple_error_type :: "SimpleQueryDatasourceError \<Rightarrow> string" where
  "simple_error_type (SimpleDatasourceNotFound m) = ''datasource-not-found''"
| "simple_error_type (SimpleDatasourceNotAllowed m) = ''datasource-not-allowed''"
| "simple_error_type SimpleFeatureDisabled = ''feature-disabled''"
| "simple_error_type (SimpleTableauError e) = ''tableau-error''"

text \<open>\<^verbatim>\<open>(d.name ?? '').toLowerCase()\<close>\<close>

definition nameLower :: "Env \<Rightarrow> ListedDatasource \<Rightarrow> string" where
  "nameLower env d = toLowerCase env (case ld_name d of Some n \<Rightarrow> n | None \<Rightarrow> [])"

text \<open>
  Lines 423-428. \<^verbatim>\<open>Array.prototype.find\<close> is \<open>find\<close>; an element is an object, hence
  truthy. The environment is passed for its \<open>toLowerCase\<close>.
\<close>

definition bestDatasourceMatch ::
  "Env \<Rightarrow> ListedDatasource list \<Rightarrow> string \<Rightarrow> ListedDatasource option" where
  "bestDatasourceMatch env list targetLower =
     (case find (\<lambda>d. nameLower env d = targetLower) list of
        Some exact \<Rightarrow> Some exact
      | None \<Rightarrow> find (\<lambda>d. str_includes (nameLower env d) targetLower) list)"

text \<open>Lines 430-447. \<open>candidates\<close> is the local of that name; \<^verbatim>\<open>??\<close> associates to the left.\<close>

definition candidates :: "json \<Rightarrow> json option" where
  "candidates readMetadataValue =
     (let v = Some readMetadataValue
      in coalesce
           (coalesce
              (coalesce
                 (coalesce (optProp ''fields'' v) (optProp ''fields'' (optProp ''result'' v)))
                 (optProp ''fields'' (optProp ''data'' v)))
              (optProp ''fields'' (optProp ''metadata'' v)))
           (Some (JArr [])))"

text \<open>\<^verbatim>\<open>Array.isArray(candidates) ? candidates[0] : undefined\<close>\<close>

fun firstElement :: "json option \<Rightarrow> json option" where
  "firstElement (Some (JArr (x # xs))) = Some x"
| "firstElement v = None"

definition extractFirstFieldCaption :: "json \<Rightarrow> json" where
  "extractFirstFieldCaption readMetadataValue =
     (let first = firstElement (candidates readMetadataValue)
      in orDefault
           (coalesce
              (coalesce (optProp ''fieldCaption'' first) (optProp ''name'' first))
              (optProp ''caption'' first))
           (JStr ''Number of Records''))"

text \<open>Lines 449-466. The question is not read.\<close>

definition buildQueryFromQuestion :: "string \<Rightarrow> json \<Rightarrow> int \<Rightarrow> Query" where
  "buildQueryFromQuestion question firstFieldCaption rowLimit =
     \<lparr>q_fields =
        [\<lparr>fieldCaption = firstFieldCaption, func = Some ''COUNT'',
          fieldAlias = Some ''Total Records''\<rparr>],
      q_filters = None,
      q_limit = Some rowLimit\<rparr>"

definition pageSize :: nat where
  "pageSize = 100"

text \<open>
  Lines 244-261, the loop \<^verbatim>\<open>for (let pageNumber = 1; pageNumber <= 5; pageNumber++)\<close>,
  from the page number it has reached. It returns the match, if any, and the listing
  calls it made.
\<close>

function resolveLoop :: "Env \<Rightarrow> string \<Rightarrow> nat \<Rightarrow> ListedDatasource option \<times> Call list" where
  "resolveLoop env target pageNumber =
     (if pageNumber \<le> 5 then
        (let datasources = listDatasources env pageSize pageNumber
         in case bestDatasourceMatch env (orEmpty datasources) target of
              Some match \<Rightarrow> (Some match, [ListDatasourcesCall pageSize pageNumber])
            | None \<Rightarrow>
                if datasources = None \<or> length (orEmpty datasources) < pageSize
                then (None, [ListDatasourcesCall pageSize pageNumber])
                else (let (found, calls) = resolveLoop env target (pageNumber + 1)
                      in (found, ListDatasourcesCall pageSize pageNumber # calls)))
      else (None, []))"
  by pat_completeness auto
termination
  by (relation "measure (\<lambda>(env, target, pageNumber). 6 - pageNumber)") auto

definition not_matched_message :: "string \<Rightarrow> string" where
  "not_matched_message datasourceName =
     ''No datasource matched '' @ dquote @ datasourceName @ dquote @ ''.''"

definition no_luid_message :: "string \<Rightarrow> string" where
  "no_luid_message datasourceName =
     ''Datasource '' @ dquote @ datasourceName @ dquote @
     '' was found but had no LUID/ID in the response.''"

text \<open>Lines 239-267, the callback that resolves the name.\<close>

definition resolveDatasource ::
  "Env \<Rightarrow> string \<Rightarrow> (SimpleQueryDatasourceError + ListedDatasource) \<times> Call list" where
  "resolveDatasource env datasourceName =
     (let target = toLowerCase env (trim env datasourceName);
          (found, calls) = resolveLoop env target 1
      in case found of
           Some match \<Rightarrow> (Inr match, calls)
         | None \<Rightarrow>
             (Inl (SimpleDatasourceNotFound (not_matched_message datasourceName)), calls))"

text \<open>\<^verbatim>\<open>resolved.value.luid ?? resolved.value.id\<close>\<close>

definition luidOrId :: "ListedDatasource \<Rightarrow> string option" where
  "luidOrId v = (case ld_luid v of Some l \<Rightarrow> Some l | None \<Rightarrow> ld_id v)"

text \<open>Lines 375-392: the remote call's result, translated.\<close>

definition simple_result :: "Env \<Rightarrow> QueryRequest \<Rightarrow> SimpleQueryDatasourceError + QueryOutput" where
  "simple_result env queryRequest =
     (case queryDatasource env queryRequest of
        Inl (ZodiosErr z) \<Rightarrow> Inl (SimpleTableauError (ZodiosPayload z))
      | Inl FeatureDisabledSignal \<Rightarrow> Inl SimpleFeatureDisabled
      | Inl (RemoteTableauError e) \<Rightarrow> Inl (SimpleTableauError (TableauPayload e))
      | Inr result \<Rightarrow> Inr result)"

text \<open>Lines 353-393, the last callback given to \<^verbatim>\<open>useRestApi\<close>.\<close>

definition simple_callback ::
  "Env \<Rightarrow> QueryRequest \<Rightarrow> (SimpleQueryDatasourceError + QueryOutput) \<times> Call list" where
  "simple_callback env queryRequest =
     (if \<not> disableQueryDatasourceFilterValidation env then
        (case validateFilterValues env (query queryRequest) (datasource queryRequest) of
           Inl errors \<Rightarrow>
             (Inl (SimpleTableauError (TableauPayload
                     \<lparr>errorCode = Some ''validation'',
                      te_message = Some (join '', '' (map fv_message errors))\<rparr>)),
              [ValidateFilterValuesCall (query queryRequest) (datasource queryRequest)])
         | Inr ok \<Rightarrow>
             (simple_result env queryRequest,
              [ValidateFilterValuesCall (query queryRequest) (datasource queryRequest),
               QueryDatasourceCall queryRequest]))
      else
        (simple_result env queryRequest, [QueryDatasourceCall queryRequest]))"

text \<open>Lines 282-394: the stages that follow once a non-empty identifier is at hand.\<close>

definition simple_pipeline ::
  "Env \<Rightarrow> string \<Rightarrow> int \<Rightarrow> string \<Rightarrow> (SimpleQueryDatasourceError + QueryOutput) \<times> Call list" where
  "simple_pipeline env question rowLimit luid =
     (case isDatasourceAllowed env luid of
        NotAllowed message \<Rightarrow>
          (Inl (SimpleDatasourceNotAllowed message), [IsDatasourceAllowedCall luid])
      | Allowed \<Rightarrow>
          (let mdDatasource = \<lparr>datasourceLuid = luid, connections = None\<rparr>
           in case readMetadata env mdDatasource of
                Inl e \<Rightarrow>
                  (Inl SimpleFeatureDisabled,
                   [IsDatasourceAllowedCall luid, ReadMetadataCall mdDatasource])
              | Inr md \<Rightarrow>
                  (let firstFieldCaption = extractFirstFieldCaption md;
                       q = buildQueryFromQuestion question firstFieldCaption rowLimit;
                       ds = attachCredentials env \<lparr>datasourceLuid = luid, connections = None\<rparr>;
                       opts = \<lparr>returnFormat = ''OBJECTS'', debug = False, disaggregate = False\<rparr>;
                       queryRequest = \<lparr>datasource = ds, query = q, options = opts\<rparr>;
                       (outcome, calls) = simple_callback env queryRequest
                   in (outcome,
                       IsDatasourceAllowedCall luid # ReadMetadataCall mdDatasource # calls))))"

text \<open>
  Lines 224-395, the callback of \<^verbatim>\<open>simpleTool.logAndExecute\<close>.
  \<^verbatim>\<open>if (!datasourceLuid)\<close> holds for \<^verbatim>\<open>undefined\<close> and for the empty string.
\<close>

definition simpleTool ::
  "Env \<Rightarrow> string \<Rightarrow> string \<Rightarrow> int option \<Rightarrow>
     (SimpleQueryDatasourceError + QueryOutput) \<times> Call list" where
  "simpleTool env datasourceName question limit =
     (let rowLimit = (case limit of Some l \<Rightarrow> l | None \<Rightarrow> 20);
          (resolved, calls1) = resolveDatasource env datasourceName
      in case resolved of
           Inl e \<Rightarrow> (Inl e, calls1)
         | Inr v \<Rightarrow>
             (case luidOrId v of
                None \<Rightarrow> (Inl (SimpleDatasourceNotFound (no_luid_message datasourceName)), calls1)
              | Some luid \<Rightarrow>
                  if luid = [] then
                    (Inl (SimpleDatasourceNotFound (no_luid_message datasourceName)), calls1)
                  else
                    (let (outcome, calls2) = simple_pipeline env question rowLimit luid
                     in (outcome, calls1 @ calls2))))"

section \<open>Reading an outcome and a call trace\<close>

fun simple_outcome_type :: "SimpleQueryDatasourceError + QueryOutput \<Rightarrow> string" where
  "simple_outcome_type (Inl e) = simple_error_type e"
| "simple_outcome_type (Inr r) = ''success''"

text \<open>The page numbers of the listing calls of a trace, in order.\<close>

fun listing_pages :: "Call list \<Rightarrow> nat list" where
  "listing_pages [] = []"
| "listing_pages (ListDatasourcesCall ps pn # cs) = pn # listing_pages cs"
| "listing_pages (c # cs) = listing_pages cs"

text \<open>The items of a page, and the items of all pages fetched in a trace.\<close>

definition pageItems :: "Env \<Rightarrow> nat \<Rightarrow> ListedDatasource list" where
  "pageItems env pageNumber = orEmpty (listDatasources env pageSize pageNumber)"

definition scanned :: "Env \<Rightarrow> Call list \<Rightarrow> ListedDatasource list" where
  "scanned env calls = concat (map (pageItems env) (listing_pages calls))"

text \<open>The request either tool builds for an allowed datasource.\<close>

definition requestOf :: "Env \<Rightarrow> string \<Rightarrow> Query \<Rightarrow> bool \<Rightarrow> QueryRequest" where
  "requestOf env l q dbg =
     \<lparr>datasource = attachCredentials env \<lparr>datasourceLuid = l, connections = None\<rparr>,
      query = q,
      options = \<lparr>returnFormat = ''OBJECTS'', debug = dbg, disaggregate = False\<rparr>\<rparr>"

definition rowLimitOf :: "int option \<Rightarrow> int" where
  "rowLimitOf limit = (case limit of Some l \<Rightarrow> l | None \<Rightarrow> 20)"

section \<open>Example inputs\<close>

definition sales_ds :: DataSource where
  "sales_ds = \<lparr>ds_id = ''ds-1'', ds_name = ''Sales'', project_id = ''proj-1''\<rparr>"

definition emea_ds :: DataSource where
  "emea_ds = \<lparr>ds_id = ''ds-2'', ds_name = ''Sales (EMEA)'', project_id = ''proj-2''\<rparr>"

definition hr_ds :: DataSource where
  "hr_ds = \<lparr>ds_id = ''ds-3'', ds_name = ''HR'', project_id = ''proj-1''\<rparr>"

definition no_projects_context :: BoundedContext where
  "no_projects_context = \<lparr>projectIds = Some {}, datasourceIds = None\<rparr>"

definition proj1_context :: BoundedContext where
  "proj1_context = \<lparr>projectIds = Some {''proj-1''}, datasourceIds = None\<rparr>"

definition sales_item :: ListedDatasource where
  "sales_item = \<lparr>ld_luid = None, ld_id = Some ''ds-1'', ld_name = Some ''Sales''\<rparr>"

definition emea_item :: ListedDatasource where
  "emea_item = \<lparr>ld_luid = None, ld_id = Some ''ds-2'', ld_name = Some ''Sales (EMEA)''\<rparr>"

definition hr_item :: ListedDatasource where
  "hr_item = \<lparr>ld_luid = None, ld_id = Some ''ds-3'', ld_name = Some ''HR''\<rparr>"

definition example_metadata :: json where
  "example_metadata =
     JObj [(''fields'', JArr [JObj [(''fieldCaption'', JStr ''Region'')],
                              JObj [(''fieldCaption'', JStr ''Profit'')]])]"

text \<open>
  An environment in which everything succeeds: the first listing page holds
  "Sales (EMEA)", "Sales" and "HR", in this order, and is the last page.
\<close>

definition example_env :: Env where
  "example_env =
     \<lparr>disableQueryDatasourceFilterValidation = False,
      isDatasourceAllowed = (\<lambda>l. Allowed),
      getDatasourceCredentials = (\<lambda>l. None),
      validateFilterValues = (\<lambda>q d. Inr ()),
      queryDatasource = (\<lambda>r. Inr (JObj [(''data'', JArr [])])),
      readMetadata = (\<lambda>d. Inr example_metadata),
      listDatasources = (\<lambda>ps pn. if pn = 1 then Some [emea_item, sales_item, hr_item] else Some []),
      toLowerCase = ascii_toLowerCase,
      trim = ascii_trim\<rparr>"

definition example_query :: Query where
  "example_query =
     \<lparr>q_fields = [\<lparr>fieldCaption = JStr ''Profit'', func = Some ''SUM'', fieldAlias = None\<rparr>],
      q_filters = Some (JArr [JObj [(''field'', JStr ''Region''), (''values'', JArr [JStr ''Atlantis''])]]),
      q_limit = None\<rparr>"

definition region_finding :: FilterValidationError where
  "region_finding = \<lparr>fv_field = ''Region'', fv_value = ''Atlantis'', fv_message = ''bad Region''\<rparr>"

definition year_finding :: FilterValidationError where
  "year_finding = \<lparr>fv_field = ''Year'', fv_value = ''1066'', fv_message = ''bad Year''\<rparr>"

definition rejecting_env :: Env where
  "rejecting_env = example_env\<lparr>isDatasourceAllowed := (\<lambda>l. NotAllowed ''not in the allow-list'')\<rparr>"

definition feature_disabled_env :: Env where
  "feature_disabled_env = example_env\<lparr>queryDatasource := (\<lambda>r. Inl FeatureDisabledSignal)\<rparr>"

definition metadata_error_env :: Env where
  "metadata_error_env =
     example_env\<lparr>readMetadata :=
       (\<lambda>d. Inl (RemoteTableauError \<lparr>errorCode = Some ''500'', te_message = Some ''boom''\<rparr>))\<rparr>"

text \<open>Every listing page is full and holds "HR" only.\<close>

definition full_pages_env :: Env where
  "full_pages_env = example_env\<lparr>listDatasources := (\<lambda>ps pn. Some (replicate ps hr_item))\<rparr>"

definition sales_datasource :: Datasource where
  "sales_datasource = \<lparr>datasourceLuid = ''ds-1'', connections = None\<rparr>"

definition count_query :: "json \<Rightarrow> int \<Rightarrow> Query" where
  "count_query caption n =
     \<lparr>q_fields = [\<lparr>fieldCaption = caption, func = Some ''COUNT'',
                   fieldAlias = Some ''Total Records''\<rparr>],
      q_filters = None,
      q_limit = Some n\<rparr>"

definition simple_request :: "json \<Rightarrow> int \<Rightarrow> QueryRequest" where
  "simple_request caption n =
     \<lparr>datasource = sales_datasource, query = count_query caption n,
      options = \<lparr>returnFormat = ''OBJECTS'', debug = False, disaggregate = False\<rparr>\<rparr>"

definition structured_request :: QueryRequest where
  "structured_request =
     \<lparr>datasource = sales_datasource, query = example_query,
      options = \<lparr>returnFormat = ''OBJECTS'', debug = True, disaggregate = False\<rparr>\<rparr>"

text \<open>Metadata without a \<^verbatim>\<open>fields\<close> list under any of the shapes the code tries.\<close>

definition bare_metadata :: json where
  "bare_metadata = JObj [(''data'', JArr [JObj [(''fieldCaption'', JStr ''Region'')]])]"







text \<open>Environments that differ in the metadata they return, and some metadata shapes.\<close>

definition metadata_env :: "json \<Rightarrow> Env" where
  "metadata_env md = example_env\<lparr>readMetadata := (\<lambda>d. Inr md)\<rparr>"

definition named_metadata :: json where
  "named_metadata =
     JObj [(''fields'', JArr [JObj [(''name'', JStr ''region_id''), (''caption'', JStr ''Region'')]])]"

definition result_metadata :: json where
  "result_metadata =
     JObj [(''result'', JObj [(''fields'', JArr [JObj [(''caption'', JStr ''Region'')]])])]"

definition data_metadata :: json where
  "data_metadata =
     JObj [(''data'', JObj [(''fields'', JArr [JObj [(''fieldName'', JStr ''region_id'')]])])]"

definition nested_metadata :: json where
  "nested_metadata =
     JObj [(''metadata'', JObj [(''fields'', JArr [JObj [(''fieldCaption'', JStr ''Region'')]])])]"

section \<open>Properties of the list tool\<close>

lemma narrowed_filter:
  "narrowed bc ds =
     filter (\<lambda>d. (case projectIds bc of Some s \<Rightarrow> project_id d \<in> s | None \<Rightarrow> True) \<and>
                 (case datasourceIds bc of Some s \<Rightarrow> ds_id d \<in> s | None \<Rightarrow> True)) ds"
  by (simp add: narrowed_def narrowByDatasources_def narrowByProjects_def split: option.splits)

lemma messages_differ: "all_filtered_message \<noteq> no_datasources_message"
  by (simp add: all_filtered_message_def no_datasources_message_def)

lemma constrain_all_filtered:
  assumes "datasources \<noteq> []" and "narrowed boundedContext datasources = []"
  shows "constrainDatasources datasources boundedContext = Empty all_filtered_message"
  using assms by (simp add: constrainDatasources_def)

text \<open>
  Claim C1, as stated: when the input list is non-empty and the narrowing removes every
  element, the outcome carries a tag different from the tag returned for an empty input
  list. This fails: for the one-element list \<open>[sales_ds]\<close> under a context whose
  project allow-list is present and empty, the narrowing leaves nothing, and the
  outcome's \<^verbatim>\<open>type\<close> is \<^verbatim>\<open>'empty'\<close>, the same discriminant as for the empty input.
\<close>

theorem C1_same_tag_counterexample:
  "[sales_ds] \<noteq> [] \<and> narrowed no_projects_context [sales_ds] = [] \<and>
   result_type (constrainDatasources [sales_ds] no_projects_context) =
   result_type (constrainDatasources [] no_projects_context)"
  by (simp add: constrainDatasources_def narrowed_def narrowByProjects_def
        narrowByDatasources_def no_projects_context_def)

text \<open>
  Claim C1, amended: when the input list is non-empty and the narrowing removes every
  element, the outcome has the same \<^verbatim>\<open>type\<close> \<^verbatim>\<open>'empty'\<close> as the outcome for an empty
  input list, and is told apart from it by its message only: it carries the
  "all filtered out by the server configuration" message, which differs from the
  "No datasources were found" message of the empty input.
\<close>

theorem C1_filtered_message_distinct:
  assumes "datasources \<noteq> []" and "narrowed boundedContext datasources = []"
  shows "constrainDatasources datasources boundedContext = Empty all_filtered_message \<and>
         constrainDatasources [] boundedContext = Empty no_datasources_message \<and>
         result_type (constrainDatasources datasources boundedContext) =
           result_type (constrainDatasources [] boundedContext) \<and>
         constrainDatasources datasources boundedContext \<noteq>
           constrainDatasources [] boundedContext"
  using assms messages_differ by (simp add: constrainDatasources_def)

theorem C1_filtered_message_distinct_witness:
  "constrainDatasources [sales_ds, emea_ds] no_projects_context = Empty all_filtered_message \<and>
   constrainDatasources [] no_projects_context = Empty no_datasources_message \<and>
   result_type (constrainDatasources [sales_ds, emea_ds] no_projects_context) =
     result_type (constrainDatasources [] no_projects_context) \<and>
   constrainDatasources [sales_ds, emea_ds] no_projects_context \<noteq>
     constrainDatasources [] no_projects_context"
proof -
  have ne: "[sales_ds, emea_ds] \<noteq> []" by simp
  have nar: "narrowed no_projects_context [sales_ds, emea_ds] = []"
    by (simp add: narrowed_def narrowByProjects_def narrowByDatasources_def
          no_projects_context_def)
  show ?thesis using C1_filtered_message_distinct [OF ne nar] .
qed

text \<open>
  Claim C5: for a bounded context whose project allow-list is present but empty, and a
  non-empty input list, the narrowed list is empty: every datasource is rejected, and
  the function returns the "all filtered" outcome, never a success.
\<close>

theorem C5_empty_allowed_projects_rejects_all:
  assumes "projectIds boundedContext = Some {}" and "datasources \<noteq> []"
  shows "narrowed boundedContext datasources = [] \<and>
         constrainDatasources datasources boundedContext = Empty all_filtered_message"
proof -
  have "narrowByProjects boundedContext datasources = []"
    using assms(1) by (simp add: narrowByProjects_def)
  then have n: "narrowed boundedContext datasources = []"
    by (simp add: narrowed_def narrowByDatasources_def split: option.splits)
  with assms(2) show ?thesis by (simp add: constrain_all_filtered)
qed

theorem C5_empty_allowed_projects_rejects_all_witness:
  "narrowed no_projects_context [sales_ds, emea_ds, hr_ds] = [] \<and>
   constrainDatasources [sales_ds, emea_ds, hr_ds] no_projects_context =
     Empty all_filtered_message"
proof -
  have p: "projectIds no_projects_context = Some {}"
    by (simp add: no_projects_context_def)
  have ne: "[sales_ds, emea_ds, hr_ds] \<noteq> []" by simp
  show ?thesis using C5_empty_allowed_projects_rejects_all [OF p ne] .
qed

text \<open>
  Claim C9: the list in a success outcome of \<^verbatim>\<open>constrainDatasources\<close> is a
  subsequence of the input list: every element of it is an element of the input, and
  the survivors keep their relative order. Nothing is inserted or reordered.
\<close>

theorem C9_success_is_order_preserving_subset:
  assumes "constrainDatasources datasources boundedContext = Success result"
  shows "subseq result datasources \<and> set result \<subseteq> set datasources"
proof -
  from assms have "result = narrowed boundedContext datasources"
    by (auto simp: constrainDatasources_def Let_def split: if_splits)
  then have "\<exists>P. result = filter P datasources"
    by (auto simp: narrowed_filter)
  then show ?thesis by auto
qed

theorem C9_success_is_order_preserving_subset_witness:
  "constrainDatasources [sales_ds, emea_ds, hr_ds] proj1_context = Success [sales_ds, hr_ds] \<and>
   subseq [sales_ds, hr_ds] [sales_ds, emea_ds, hr_ds] \<and>
   set [sales_ds, hr_ds] \<subseteq> set [sales_ds, emea_ds, hr_ds]"
proof -
  have s: "constrainDatasources [sales_ds, emea_ds, hr_ds] proj1_context =
             Success [sales_ds, hr_ds]"
    by (simp add: constrainDatasources_def narrowed_def narrowByProjects_def
          narrowByDatasources_def proj1_context_def sales_ds_def emea_ds_def hr_ds_def)
  show ?thesis using s C9_success_is_order_preserving_subset [OF s] by simp
qed

section \<open>Properties of the query tools\<close>

subsection \<open>The resolver loop\<close>

declare resolveLoop.simps [simp del]

lemma str_includes_sublist: "str_includes s t \<longleftrightarrow> sublist t s"
  by (induction s) (auto simp: sublist_Cons_right)

lemma find_append_None: "find P xs = None \<Longrightarrow> find P (xs @ ys) = find P ys"
  by (induction xs) (auto split: if_splits)

lemma best_None_iff:
  "bestDatasourceMatch env xs t = None \<longleftrightarrow>
     find (\<lambda>d. nameLower env d = t) xs = None \<and> find (\<lambda>d. str_includes (nameLower env d) t) xs = None"
  by (auto simp: bestDatasourceMatch_def split: option.splits)

lemma best_append_None:
  "bestDatasourceMatch env xs t = None \<Longrightarrow> bestDatasourceMatch env (xs @ ys) t = bestDatasourceMatch env ys t"
proof -
  assume "bestDatasourceMatch env xs t = None"
  then have a: "find (\<lambda>d. nameLower env d = t) xs = None"
    and b: "find (\<lambda>d. str_includes (nameLower env d) t) xs = None"
    by (simp_all add: best_None_iff)
  show ?thesis
    by (simp add: bestDatasourceMatch_def find_append_None [OF a] find_append_None [OF b]
          cong: option.case_cong)
qed

lemma resolveLoop_found:
  "fst (resolveLoop env t p) = bestDatasourceMatch env (scanned env (snd (resolveLoop env t p))) t"
proof (induction env t p rule: resolveLoop.induct)
  case (1 env target pageNumber)
  show ?case
  proof (cases "pageNumber \<le> 5")
    case False
    then show ?thesis
      by (subst (1 2) resolveLoop.simps) (simp add: scanned_def bestDatasourceMatch_def)
  next
    case le: True
    show ?thesis
    proof (cases "bestDatasourceMatch env (pageItems env pageNumber) target")
      case (Some m)
      with le show ?thesis
        by (subst (1 2) resolveLoop.simps) (simp add: scanned_def pageItems_def)
    next
      case None
      show ?thesis
      proof (cases "listDatasources env pageSize pageNumber = None \<or>
                    length (pageItems env pageNumber) < pageSize")
        case True
        with le None show ?thesis
          by (subst (1 2) resolveLoop.simps) (auto simp: scanned_def pageItems_def)
      next
        case False
        with le None have IH:
          "fst (resolveLoop env target (pageNumber + 1)) =
           bestDatasourceMatch env (scanned env (snd (resolveLoop env target (pageNumber + 1)))) target"
          using "1.IH" by (simp add: pageItems_def)
        from le None False show ?thesis
          apply (subst (1 2) resolveLoop.simps)
          apply (simp add: pageItems_def split: prod.splits)
          using IH by (auto simp: scanned_def pageItems_def best_append_None)
      qed
    qed
  qed
qed


lemma resolveLoop_calls:
  "\<exists>n. snd (resolveLoop env t p) = map (ListDatasourcesCall pageSize) [p..<p + n] \<and>
       p + n \<le> max p 6 \<and>
       (\<forall>k. p \<le> k \<and> Suc k < p + n \<longrightarrow>
            bestDatasourceMatch env (pageItems env k) t = None \<and> pageSize \<le> length (pageItems env k))"
proof (induction env t p rule: resolveLoop.induct)
  case (1 env target pageNumber)
  let ?P = "\<lambda>n. snd (resolveLoop env target pageNumber) =
                  map (ListDatasourcesCall pageSize) [pageNumber..<pageNumber + n] \<and>
                pageNumber + n \<le> max pageNumber 6 \<and>
                (\<forall>k. pageNumber \<le> k \<and> Suc k < pageNumber + n \<longrightarrow>
                     bestDatasourceMatch env (pageItems env k) target = None \<and>
                     pageSize \<le> length (pageItems env k))"
  show ?case
  proof (cases "pageNumber \<le> 5")
    case False
    then have "?P 0" by (subst resolveLoop.simps) auto
    then show ?thesis ..
  next
    case le: True
    show ?thesis
    proof (cases "bestDatasourceMatch env (pageItems env pageNumber) target")
      case (Some m)
      with le have "?P 1"
        by (subst resolveLoop.simps) (auto simp: pageItems_def)
      then show ?thesis ..
    next
      case None
      show ?thesis
      proof (cases "listDatasources env pageSize pageNumber = None \<or>
                    length (pageItems env pageNumber) < pageSize")
        case True
        with le None have "?P 1"
          by (subst resolveLoop.simps) (auto simp: pageItems_def)
        then show ?thesis ..
      next
        case False
        with le None obtain n where
          c: "snd (resolveLoop env target (pageNumber + 1)) =
                map (ListDatasourcesCall pageSize) [pageNumber + 1..<pageNumber + 1 + n]"
          and b: "pageNumber + 1 + n \<le> max (pageNumber + 1) 6"
          and f: "\<forall>k. pageNumber + 1 \<le> k \<and> Suc k < pageNumber + 1 + n \<longrightarrow>
                   bestDatasourceMatch env (pageItems env k) target = None \<and>
                   pageSize \<le> length (pageItems env k)"
          using "1.IH" by (auto simp: pageItems_def)
        have s: "snd (resolveLoop env target pageNumber) =
                   ListDatasourcesCall pageSize pageNumber #
                     snd (resolveLoop env target (pageNumber + 1))"
          using le None False
          by (subst resolveLoop.simps) (auto simp: pageItems_def split: prod.splits)
        have u: "[pageNumber..<pageNumber + Suc n] =
                   pageNumber # [pageNumber + 1..<pageNumber + 1 + n]"
          by (simp add: upt_rec)
        have "?P (Suc n)"
        proof (intro conjI allI impI)
          show "snd (resolveLoop env target pageNumber) =
                  map (ListDatasourcesCall pageSize) [pageNumber..<pageNumber + Suc n]"
            unfolding u using s c by simp
          show "pageNumber + Suc n \<le> max pageNumber 6"
            using b le by simp
        next
          fix k assume k: "pageNumber \<le> k \<and> Suc k < pageNumber + Suc n"
          show "bestDatasourceMatch env (pageItems env k) target = None"
          proof (cases "k = pageNumber")
            case True then show ?thesis using None by simp
          next
            case False then show ?thesis using f k by simp
          qed
          show "pageSize \<le> length (pageItems env k)"
          proof (cases "k = pageNumber")
            case True then show ?thesis using \<open>\<not> (listDatasources env pageSize pageNumber = None \<or>
                    length (pageItems env pageNumber) < pageSize)\<close> by simp
          next
            case False then show ?thesis using f k by simp
          qed
        qed
        then show ?thesis ..
      qed
    qed
  qed
qed



subsection \<open>The resolver's trace holds listing calls only\<close>

lemma resolveLoop_listing_only:
  "c \<in> set (snd (resolveLoop env t p)) \<Longrightarrow> \<exists>k. c = ListDatasourcesCall pageSize k"
  using resolveLoop_calls [of env t p] by auto

lemma listing_pages_map [simp]: "listing_pages (map (ListDatasourcesCall ps) ks) = ks"
  by (induction ks) simp_all

lemma listing_pages_append [simp]:
  "listing_pages (xs @ ys) = listing_pages xs @ listing_pages ys"
  by (induction xs rule: listing_pages.induct) simp_all

lemma resolveDatasource_eq:
  "resolveDatasource env n =
     (case fst (resolveLoop env (toLowerCase env (trim env n)) 1) of
        Some m \<Rightarrow> Inr m
      | None \<Rightarrow> Inl (SimpleDatasourceNotFound (not_matched_message n)),
      snd (resolveLoop env (toLowerCase env (trim env n)) 1))"
  by (simp add: resolveDatasource_def split: prod.splits option.splits)

lemma resolveDatasource_listing_only:
  "c \<in> set (snd (resolveDatasource env n)) \<Longrightarrow> \<exists>k. c = ListDatasourcesCall pageSize k"
  by (simp add: resolveDatasource_eq resolveLoop_listing_only)

lemma simple_callback_no_listing:
  "ListDatasourcesCall ps k \<notin> set (snd (simple_callback env r))"
  by (simp add: simple_callback_def split: sum.splits)

lemma simple_pipeline_no_listing:
  "ListDatasourcesCall ps k \<notin> set (snd (simple_pipeline env question rl l))"
  using simple_callback_no_listing
  by (auto simp: simple_pipeline_def Let_def case_prod_beta split: AllowedResult.splits sum.splits)

lemma listing_pages_none:
  "(\<And>ps k. ListDatasourcesCall ps k \<notin> set cs) \<Longrightarrow> listing_pages cs = []"
  by (induction cs rule: listing_pages.induct) auto

lemma simpleTool_cases:
  obtains (stopped) e where
      "simpleTool env n question limit =
         (Inl (SimpleDatasourceNotFound e), snd (resolveDatasource env n))"
      "fst (resolveDatasource env n) = Inl (SimpleDatasourceNotFound e) \<or>
       (\<exists>v. fst (resolveDatasource env n) = Inr v)"
  | (pipeline) l v where
      "l \<noteq> []" "fst (resolveDatasource env n) = Inr v"
      "simpleTool env n question limit =
         (fst (simple_pipeline env question (rowLimitOf limit) l),
          snd (resolveDatasource env n) @ snd (simple_pipeline env question (rowLimitOf limit) l))"
proof (cases "fst (resolveDatasource env n)")
  case (Inl e)
  then obtain m where "e = SimpleDatasourceNotFound m"
    by (auto simp: resolveDatasource_eq split: option.splits)
  with Inl show ?thesis
    by (intro stopped [of m]) (auto simp: simpleTool_def split: prod.splits)
next
  case (Inr v)
  show ?thesis
  proof (cases "luidOrId v")
    case None
    with Inr show ?thesis
      by (intro stopped [of "no_luid_message n"]) (auto simp: simpleTool_def split: prod.splits)
  next
    case (Some l)
    show ?thesis
    proof (cases "l = []")
      case True
      with Inr Some show ?thesis
        by (intro stopped [of "no_luid_message n"]) (auto simp: simpleTool_def split: prod.splits)
    next
      case False
      with Inr Some show ?thesis
        by (intro pipeline [of l v])
           (auto simp: simpleTool_def rowLimitOf_def split: prod.splits)
    qed
  qed
qed


lemma simpleTool_resolved:
  assumes "fst (resolveDatasource env n) = Inr v" and "luidOrId v = Some l" and "l \<noteq> []"
  shows "simpleTool env n question limit =
           (fst (simple_pipeline env question (rowLimitOf limit) l),
            snd (resolveDatasource env n) @ snd (simple_pipeline env question (rowLimitOf limit) l))"
  using assms by (simp add: simpleTool_def rowLimitOf_def case_prod_beta Let_def)

subsection \<open>The tools at the example inputs\<close>

lemmas eval_defs =
  simpleTool_def resolveDatasource_def resolveLoop.simps bestDatasourceMatch_def nameLower_def
  ascii_toLowerCase_def ascii_toLowerCaseChar_def ascii_trim_def ascii_isWhiteSpace_def
  pageSize_def luidOrId_def
  simple_pipeline_def simple_callback_def simple_result_def attachCredentials_def
  extractFirstFieldCaption_def candidates_def coalesce_def buildQueryFromQuestion_def
  queryDatasourceTool_def queryDatasource_callback_def queryDatasource_result_def
  example_env_def example_metadata_def sales_item_def emea_item_def hr_item_def
  rejecting_env_def feature_disabled_env_def metadata_error_env_def
  region_finding_def year_finding_def example_query_def sales_datasource_def count_query_def
  simple_request_def structured_request_def scanned_def pageItems_def Let_def


lemma find_replicate: "find P (replicate n x) = (if 0 < n \<and> P x then Some x else None)"
  by (induction n) auto

lemma eval_simple_metadata_error:
  "simpleTool metadata_error_env ''Sales'' ''How many?'' None =
     (Inl SimpleFeatureDisabled,
      [ListDatasourcesCall 100 1, IsDatasourceAllowedCall ''ds-1'',
       ReadMetadataCall sales_datasource])"
  by (simp add: eval_defs)

lemma eval_simple_finance:
  "simpleTool example_env ''Finance'' ''How many?'' None =
     (Inl (SimpleDatasourceNotFound (not_matched_message ''Finance'')),
      [ListDatasourcesCall 100 1])"
  by (simp add: eval_defs)

lemma eval_simple_full_pages:
  "simpleTool full_pages_env ''Sales'' ''How many?'' None =
     (Inl (SimpleDatasourceNotFound (not_matched_message ''Sales'')),
      [ListDatasourcesCall 100 1, ListDatasourcesCall 100 2, ListDatasourcesCall 100 3,
       ListDatasourcesCall 100 4, ListDatasourcesCall 100 5])"
  by (simp add: eval_defs full_pages_env_def find_replicate)

lemma scanned_example:
  "scanned example_env [ListDatasourcesCall 100 (Suc 0)] = [emea_item, sales_item, hr_item]"
  by (simp add: scanned_def pageItems_def pageSize_def example_env_def)

lemma rejecting_env_fields:
  "isDatasourceAllowed rejecting_env l = NotAllowed ''not in the allow-list''"
  by (simp add: rejecting_env_def example_env_def)

lemma nameLower_examples:
  "nameLower example_env emea_item = ''sales (emea)''"
  "nameLower example_env sales_item = ''sales''"
  "nameLower example_env hr_item = ''hr''"
  by (simp_all add: eval_defs)

lemma rejecting_env_resolves:
  "resolveDatasource rejecting_env ''Sales'' = (Inr sales_item, [ListDatasourcesCall 100 1])"
  by (simp add: eval_defs)





lemma metadata_env_fields:
  "readMetadata (metadata_env md) d = Inr md"
  "isDatasourceAllowed (metadata_env md) l = Allowed"
  by (simp_all add: metadata_env_def example_env_def)

lemma metadata_env_resolves:
  "resolveDatasource (metadata_env md) ''Sales'' = (Inr sales_item, [ListDatasourcesCall 100 1])"
  by (simp add: eval_defs metadata_env_def)

lemma eval_simple_metadata_env:
  "simpleTool (metadata_env md) ''Sales'' ''How many?'' limit =
     (Inr (JObj [(''data'', JArr [])]),
      [ListDatasourcesCall 100 1, IsDatasourceAllowedCall ''ds-1'',
       ReadMetadataCall sales_datasource,
       ValidateFilterValuesCall (count_query (extractFirstFieldCaption md) (rowLimitOf limit))
         sales_datasource,
       QueryDatasourceCall (simple_request (extractFirstFieldCaption md) (rowLimitOf limit))])"
  by (simp add: simpleTool_def resolveDatasource_def resolveLoop.simps bestDatasourceMatch_def
        nameLower_def ascii_toLowerCase_def ascii_toLowerCaseChar_def ascii_trim_def
        ascii_isWhiteSpace_def pageSize_def luidOrId_def simple_pipeline_def simple_callback_def
        simple_result_def attachCredentials_def buildQueryFromQuestion_def metadata_env_def
        example_env_def sales_item_def emea_item_def hr_item_def sales_datasource_def
        count_query_def simple_request_def rowLimitOf_def Let_def)

lemma caption_examples:
  "extractFirstFieldCaption example_metadata = JStr ''Region''"
  "extractFirstFieldCaption named_metadata = JStr ''region_id''"
  "extractFirstFieldCaption result_metadata = JStr ''Region''"
  "extractFirstFieldCaption data_metadata = JStr ''Number of Records''"
  "extractFirstFieldCaption nested_metadata = JStr ''Region''"
  "extractFirstFieldCaption bare_metadata = JStr ''Number of Records''"
  by (simp_all add: extractFirstFieldCaption_def candidates_def coalesce_def example_metadata_def
        named_metadata_def result_metadata_def data_metadata_def nested_metadata_def
        bare_metadata_def)

subsection \<open>The stages after resolution\<close>

lemma queryDatasourceTool_rejected:
  "isDatasourceAllowed env l = NotAllowed m \<Longrightarrow>
     queryDatasourceTool env l q = (Inl (DatasourceNotAllowed m), [IsDatasourceAllowedCall l])"
  by (simp add: queryDatasourceTool_def)



lemma requestOf_simps [simp]:
  "query (requestOf env l q dbg) = q"
  "datasourceLuid (datasource (requestOf env l q dbg)) = l"
  by (simp_all add: requestOf_def attachCredentials_def split: option.splits)


lemma simple_pipeline_rejected:
  "isDatasourceAllowed env l = NotAllowed m \<Longrightarrow>
     simple_pipeline env question rl l =
       (Inl (SimpleDatasourceNotAllowed m), [IsDatasourceAllowedCall l])"
  by (simp add: simple_pipeline_def)

lemma simple_pipeline_metadata_failed:
  "isDatasourceAllowed env l = Allowed \<Longrightarrow>
   readMetadata env \<lparr>datasourceLuid = l, connections = None\<rparr> = Inl e \<Longrightarrow>
     simple_pipeline env question rl l =
       (Inl SimpleFeatureDisabled,
        [IsDatasourceAllowedCall l, ReadMetadataCall \<lparr>datasourceLuid = l, connections = None\<rparr>])"
  by (simp add: simple_pipeline_def)

lemma simple_pipeline_built:
  assumes "isDatasourceAllowed env l = Allowed"
    and "readMetadata env \<lparr>datasourceLuid = l, connections = None\<rparr> = Inr md"
  obtains r where
    "query r = buildQueryFromQuestion question (extractFirstFieldCaption md) rl"
    "datasourceLuid (datasource r) = l"
    "simple_pipeline env question rl l =
       (fst (simple_callback env r),
        IsDatasourceAllowedCall l # ReadMetadataCall \<lparr>datasourceLuid = l, connections = None\<rparr> #
        snd (simple_callback env r))"
proof -
  let ?r = "requestOf env l (buildQueryFromQuestion question (extractFirstFieldCaption md) rl) False"
  have "simple_pipeline env question rl l =
       (fst (simple_callback env ?r),
        IsDatasourceAllowedCall l # ReadMetadataCall \<lparr>datasourceLuid = l, connections = None\<rparr> #
        snd (simple_callback env ?r))"
    using assms by (simp add: simple_pipeline_def Let_def case_prod_beta requestOf_def)
  then show ?thesis using that [of ?r] by simp
qed

lemma queryDatasource_callback_calls:
  "snd (queryDatasource_callback env r) =
     (if disableQueryDatasourceFilterValidation env then [QueryDatasourceCall r]
      else case validateFilterValues env (query r) (datasource r) of
             Inl errors \<Rightarrow> [ValidateFilterValuesCall (query r) (datasource r)]
           | Inr ok \<Rightarrow> [ValidateFilterValuesCall (query r) (datasource r), QueryDatasourceCall r])"
  by (simp add: queryDatasource_callback_def split: sum.splits)

lemma simple_callback_calls:
  "snd (simple_callback env r) =
     (if disableQueryDatasourceFilterValidation env then [QueryDatasourceCall r]
      else case validateFilterValues env (query r) (datasource r) of
             Inl errors \<Rightarrow> [ValidateFilterValuesCall (query r) (datasource r)]
           | Inr ok \<Rightarrow> [ValidateFilterValuesCall (query r) (datasource r), QueryDatasourceCall r])"
  by (simp add: simple_callback_def split: sum.splits)

lemma simple_pipeline_metadata_error:
  assumes "ReadMetadataCall d \<in> set (snd (simple_pipeline env question rl l))"
    and "readMetadata env d = Inl e"
  shows "fst (simple_pipeline env question rl l) = Inl SimpleFeatureDisabled"
proof (cases "isDatasourceAllowed env l")
  case (NotAllowed m)
  with assms(1) show ?thesis by (simp add: simple_pipeline_rejected)
next
  case Allowed
  show ?thesis
  proof (cases "readMetadata env \<lparr>datasourceLuid = l, connections = None\<rparr>")
    case (Inl e)
    with Allowed show ?thesis by (simp add: simple_pipeline_metadata_failed)
  next
    case (Inr md)
    from simple_pipeline_built [OF Allowed Inr, of question rl] obtain r where
      "simple_pipeline env question rl l =
         (fst (simple_callback env r),
          IsDatasourceAllowedCall l # ReadMetadataCall \<lparr>datasourceLuid = l, connections = None\<rparr> #
          snd (simple_callback env r))"
      by blast
    with assms(1) have "d = \<lparr>datasourceLuid = l, connections = None\<rparr>"
      by (auto simp: simple_callback_calls split: if_splits sum.splits)
    with assms(2) Inr show ?thesis by simp
  qed
qed

text \<open>
  Claim C7: whenever the access checker rejects the datasource, the outcome is the error
  tagged \<^verbatim>\<open>'datasource-not-allowed'\<close> carrying the checker's message, the checker's call
  is the last call made, and the remote query is never made. For the structured-query
  tool the datasource is the caller's identifier and the checker's call is the only
  call; for the natural-language tool it is the identifier of the resolved datasource
  and only the resolver's listing calls come before the checker's call.
\<close>

theorem C7_access_rejection_stops_pipeline:
  "(isDatasourceAllowed env luid = NotAllowed message \<longrightarrow>
      queryDatasourceTool env luid q =
        (Inl (DatasourceNotAllowed message), [IsDatasourceAllowedCall luid]) \<and>
      error_type (DatasourceNotAllowed message) = Some ''datasource-not-allowed'') \<and>
   (fst (resolveDatasource env datasourceName) = Inr v \<and> luidOrId v = Some l \<and> l \<noteq> [] \<and>
    isDatasourceAllowed env l = NotAllowed message \<longrightarrow>
      simpleTool env datasourceName question limit =
        (Inl (SimpleDatasourceNotAllowed message),
         snd (resolveDatasource env datasourceName) @ [IsDatasourceAllowedCall l]) \<and>
      simple_error_type (SimpleDatasourceNotAllowed message) = ''datasource-not-allowed'' \<and>
      (\<forall>r. QueryDatasourceCall r \<notin> set (snd (simpleTool env datasourceName question limit))))"
proof (intro conjI impI)
  assume "isDatasourceAllowed env luid = NotAllowed message"
  then show "queryDatasourceTool env luid q =
        (Inl (DatasourceNotAllowed message), [IsDatasourceAllowedCall luid])"
    by (rule queryDatasourceTool_rejected)
next
  show "error_type (DatasourceNotAllowed message) = Some ''datasource-not-allowed''" by simp
next
  show "simple_error_type (SimpleDatasourceNotAllowed message) = ''datasource-not-allowed''"
    by simp
next
  assume a: "fst (resolveDatasource env datasourceName) = Inr v \<and> luidOrId v = Some l \<and>
             l \<noteq> [] \<and> isDatasourceAllowed env l = NotAllowed message"
  then have t: "simpleTool env datasourceName question limit =
        (Inl (SimpleDatasourceNotAllowed message),
         snd (resolveDatasource env datasourceName) @ [IsDatasourceAllowedCall l])"
    by (simp add: simpleTool_resolved [of env datasourceName v l] simple_pipeline_rejected)
  then show "simpleTool env datasourceName question limit =
        (Inl (SimpleDatasourceNotAllowed message),
         snd (resolveDatasource env datasourceName) @ [IsDatasourceAllowedCall l])" .
  from t show "\<forall>r. QueryDatasourceCall r \<notin> set (snd (simpleTool env datasourceName question limit))"
    by (auto dest: resolveDatasource_listing_only)
qed

theorem C7_access_rejection_stops_pipeline_witness:
  "queryDatasourceTool rejecting_env ''ds-1'' example_query =
     (Inl (DatasourceNotAllowed ''not in the allow-list''), [IsDatasourceAllowedCall ''ds-1'']) \<and>
   simpleTool rejecting_env ''Sales'' ''How many?'' None =
     (Inl (SimpleDatasourceNotAllowed ''not in the allow-list''),
      [ListDatasourcesCall 100 1, IsDatasourceAllowedCall ''ds-1''])"
proof -
  have h1: "isDatasourceAllowed rejecting_env ''ds-1'' = NotAllowed ''not in the allow-list''"
    by (simp add: rejecting_env_fields)
  have h2: "fst (resolveDatasource rejecting_env ''Sales'') = Inr sales_item \<and>
            luidOrId sales_item = Some ''ds-1'' \<and> ''ds-1'' \<noteq> [] \<and>
            isDatasourceAllowed rejecting_env ''ds-1'' = NotAllowed ''not in the allow-list''"
    by (simp add: rejecting_env_resolves rejecting_env_fields luidOrId_def sales_item_def)
  note c1 = C7_access_rejection_stops_pipeline [THEN conjunct1, THEN mp, OF h1, THEN conjunct1]
  note c2 = C7_access_rejection_stops_pipeline [THEN conjunct2, THEN mp, OF h2, THEN conjunct1]
  from c1 c2 show ?thesis by (simp add: rejecting_env_resolves)
qed






text \<open>
  Claim C10: in the natural-language tool, whenever the metadata read is made and fails,
  with whatever remote error, the outcome is the error tagged \<^verbatim>\<open>'feature-disabled'\<close>; it is
  never tagged \<^verbatim>\<open>'tableau-error'\<close>.
\<close>

theorem C10_metadata_failure_is_feature_disabled:
  assumes "ReadMetadataCall d \<in> set (snd (simpleTool env datasourceName question limit))"
    and "readMetadata env d = Inl e"
  shows "fst (simpleTool env datasourceName question limit) = Inl SimpleFeatureDisabled \<and>
         simple_outcome_type (fst (simpleTool env datasourceName question limit)) =
           ''feature-disabled'' \<and>
         simple_outcome_type (fst (simpleTool env datasourceName question limit)) \<noteq>
           ''tableau-error''"
proof (cases rule: simpleTool_cases [of env datasourceName question limit])
  case (stopped m)
  with assms(1) show ?thesis
    by (auto dest: resolveDatasource_listing_only)
next
  case (pipeline l v)
  with assms(1) have "ReadMetadataCall d \<in> set (snd (simple_pipeline env question (rowLimitOf limit) l))"
    by (auto dest: resolveDatasource_listing_only)
  from simple_pipeline_metadata_error [OF this assms(2)] pipeline(3)
  show ?thesis by simp
qed

theorem C10_metadata_failure_is_feature_disabled_witness:
  "fst (simpleTool metadata_error_env ''Sales'' ''How many?'' None) = Inl SimpleFeatureDisabled \<and>
   simple_outcome_type (fst (simpleTool metadata_error_env ''Sales'' ''How many?'' None)) =
     ''feature-disabled'' \<and>
   simple_outcome_type (fst (simpleTool metadata_error_env ''Sales'' ''How many?'' None)) \<noteq>
     ''tableau-error''"
proof -
  have h1: "ReadMetadataCall sales_datasource
              \<in> set (snd (simpleTool metadata_error_env ''Sales'' ''How many?'' None))"
    by (simp add: eval_simple_metadata_error)
  have h2: "readMetadata metadata_error_env sales_datasource =
              Inl (RemoteTableauError \<lparr>errorCode = Some ''500'', te_message = Some ''boom''\<rparr>)"
    by (simp add: metadata_error_env_def example_env_def)
  show ?thesis using C10_metadata_failure_is_feature_disabled [OF h1 h2] .
qed

subsection \<open>Matching\<close>

lemma best_None_no_match:
  "bestDatasourceMatch env xs t = None \<longleftrightarrow> (\<forall>d\<in>set xs. \<not> sublist t (nameLower env d))"
proof
  assume "bestDatasourceMatch env xs t = None"
  then show "\<forall>d\<in>set xs. \<not> sublist t (nameLower env d)"
    by (simp add: best_None_iff find_None_iff str_includes_sublist)
next
  assume a: "\<forall>d\<in>set xs. \<not> sublist t (nameLower env d)"
  then have "\<forall>d\<in>set xs. nameLower env d \<noteq> t" by auto
  with a show "bestDatasourceMatch env xs t = None"
    by (simp add: best_None_iff find_None_iff str_includes_sublist)
qed

lemma resolveDatasource_found:
  "fst (resolveDatasource env n) =
     (case bestDatasourceMatch env (scanned env (snd (resolveDatasource env n))) (toLowerCase env (trim env n)) of
        Some m \<Rightarrow> Inr m
      | None \<Rightarrow> Inl (SimpleDatasourceNotFound (not_matched_message n)))"
  using resolveLoop_found [of env "toLowerCase env (trim env n)" 1]
  by (simp add: resolveDatasource_eq)


subsection \<open>The page bound\<close>

lemma sublist_not_matched_message: "sublist n (not_matched_message n)"
  unfolding not_matched_message_def sublist_def by (metis append.assoc)

lemma simpleTool_listing_pages:
  "listing_pages (snd (simpleTool env n question limit)) =
   listing_pages (snd (resolveLoop env (toLowerCase env (trim env n)) 1))"
proof (cases rule: simpleTool_cases [of env n question limit])
  case (stopped e)
  then show ?thesis by (simp add: resolveDatasource_eq)
next
  case (pipeline l v)
  have "listing_pages (snd (simple_pipeline env question (rowLimitOf limit) l)) = []"
    by (rule listing_pages_none) (rule simple_pipeline_no_listing)
  with pipeline(3) show ?thesis by (simp add: resolveDatasource_eq)
qed

text \<open>
  Claim C4: in every invocation of the natural-language tool the listing is fetched at
  most five times, for the pages \<open>1, 2, ...\<close> in order, each with page size 100; a
  fetched page with fewer than 100 items is the last page fetched; and if no scanned item's
  case-folded name contains the term, the outcome is the error tagged
  \<^verbatim>\<open>'datasource-not-found'\<close>, whose message contains the name as the caller wrote it.
\<close>

theorem C4_bounded_scan_not_found:
  "length (listing_pages (snd (simpleTool env datasourceName question limit))) \<le> 5 \<and>
   listing_pages (snd (simpleTool env datasourceName question limit)) =
     [1..<Suc (length (listing_pages (snd (simpleTool env datasourceName question limit))))] \<and>
   (\<forall>ps k. ListDatasourcesCall ps k \<in> set (snd (simpleTool env datasourceName question limit))
        \<longrightarrow> ps = 100) \<and>
   (\<forall>k\<in>set (listing_pages (snd (simpleTool env datasourceName question limit))).
      length (pageItems env k) < 100 \<longrightarrow>
      (\<forall>j\<in>set (listing_pages (snd (simpleTool env datasourceName question limit))). j \<le> k)) \<and>
   ((\<forall>d\<in>set (scanned env (snd (simpleTool env datasourceName question limit))).
       \<not> sublist (toLowerCase env (trim env datasourceName)) (nameLower env d)) \<longrightarrow>
      fst (simpleTool env datasourceName question limit) =
        Inl (SimpleDatasourceNotFound (not_matched_message datasourceName)) \<and>
      simple_outcome_type (fst (simpleTool env datasourceName question limit)) =
        ''datasource-not-found'' \<and>
      sublist datasourceName (not_matched_message datasourceName))"
proof -
  let ?t = "toLowerCase env (trim env datasourceName)"
  let ?calls = "snd (simpleTool env datasourceName question limit)"
  from resolveLoop_calls [of env ?t 1] obtain n where
    c: "snd (resolveLoop env ?t 1) = map (ListDatasourcesCall pageSize) [1..<1 + n]"
    and b: "1 + n \<le> max 1 6"
    and f: "\<forall>k. 1 \<le> k \<and> Suc k < 1 + n \<longrightarrow>
              bestDatasourceMatch env (pageItems env k) ?t = None \<and> pageSize \<le> length (pageItems env k)"
    by blast
  have pages: "listing_pages ?calls = [1..<1 + n]"
    by (simp only: simpleTool_listing_pages c listing_pages_map)
  have 1: "length (listing_pages ?calls) \<le> 5"
    using b by (simp add: pages)
  have 2: "listing_pages ?calls = [1..<Suc (length (listing_pages ?calls))]"
    by (simp add: pages)
  have 3: "\<forall>ps k. ListDatasourcesCall ps k \<in> set ?calls \<longrightarrow> ps = 100"
  proof (intro allI impI)
    fix ps k assume m: "ListDatasourcesCall ps k \<in> set ?calls"
    show "ps = 100"
    proof (cases rule: simpleTool_cases [of env datasourceName question limit])
      case (stopped e)
      with m show ?thesis
        by (auto dest: resolveDatasource_listing_only simp: pageSize_def)
    next
      case (pipeline l v)
      with m simple_pipeline_no_listing [of ps k env question "rowLimitOf limit" l]
      show ?thesis
        by (auto dest: resolveDatasource_listing_only simp: pageSize_def)
    qed
  qed
  have 4: "\<forall>k\<in>set (listing_pages ?calls). length (pageItems env k) < 100 \<longrightarrow>
             (\<forall>j\<in>set (listing_pages ?calls). j \<le> k)"
    using f by (auto simp: pages pageSize_def)
  have 5: "(\<forall>d\<in>set (scanned env ?calls). \<not> sublist ?t (nameLower env d)) \<longrightarrow>
      fst (simpleTool env datasourceName question limit) =
        Inl (SimpleDatasourceNotFound (not_matched_message datasourceName)) \<and>
      simple_outcome_type (fst (simpleTool env datasourceName question limit)) =
        ''datasource-not-found'' \<and>
      sublist datasourceName (not_matched_message datasourceName)"
  proof
    assume a: "\<forall>d\<in>set (scanned env ?calls). \<not> sublist ?t (nameLower env d)"
    have "scanned env ?calls = scanned env (snd (resolveDatasource env datasourceName))"
      by (simp add: scanned_def simpleTool_listing_pages resolveDatasource_eq)
    with a have "bestDatasourceMatch env (scanned env (snd (resolveDatasource env datasourceName))) ?t = None"
      by (simp add: best_None_no_match)
    then have r: "fst (resolveDatasource env datasourceName) =
                    Inl (SimpleDatasourceNotFound (not_matched_message datasourceName))"
      by (subst resolveDatasource_found) simp
    have "fst (simpleTool env datasourceName question limit) =
            Inl (SimpleDatasourceNotFound (not_matched_message datasourceName))"
    proof (cases rule: simpleTool_cases [of env datasourceName question limit])
      case (stopped e)
      with r show ?thesis by simp
    next
      case (pipeline l v)
      with r show ?thesis by simp
    qed
    then show "fst (simpleTool env datasourceName question limit) =
        Inl (SimpleDatasourceNotFound (not_matched_message datasourceName)) \<and>
      simple_outcome_type (fst (simpleTool env datasourceName question limit)) =
        ''datasource-not-found'' \<and>
      sublist datasourceName (not_matched_message datasourceName)"
      by (simp add: sublist_not_matched_message)
  qed
  from 1 2 3 4 5 show ?thesis by blast
qed

theorem C4_bounded_scan_not_found_witness:
  "fst (simpleTool example_env ''Finance'' ''How many?'' None) =
     Inl (SimpleDatasourceNotFound (not_matched_message ''Finance'')) \<and>
   simple_outcome_type (fst (simpleTool example_env ''Finance'' ''How many?'' None)) =
     ''datasource-not-found'' \<and>
   sublist ''Finance'' (not_matched_message ''Finance'') \<and>
   length (listing_pages (snd (simpleTool full_pages_env ''Sales'' ''How many?'' None))) \<le> 5 \<and>
   listing_pages (snd (simpleTool full_pages_env ''Sales'' ''How many?'' None)) = [1, 2, 3, 4, 5]"
proof -
  let ?fin = "simpleTool example_env ''Finance'' ''How many?'' None"
  let ?full = "simpleTool full_pages_env ''Sales'' ''How many?'' None"
  have t: "toLowerCase example_env (trim example_env ''Finance'') = ''finance''" by (simp add: eval_defs)
  have h5: "\<forall>d\<in>set (scanned example_env (snd ?fin)).
              \<not> sublist (toLowerCase example_env (trim example_env ''Finance'')) (nameLower example_env d)"
    by (simp add: eval_simple_finance scanned_example nameLower_examples t
          str_includes_sublist [symmetric])
  have h4: "1 \<in> set (listing_pages (snd ?fin))"
    by (simp add: eval_simple_finance)
  have h4': "length (pageItems example_env 1) < 100"
    by (simp add: pageItems_def pageSize_def example_env_def)
  note c = C4_bounded_scan_not_found [of example_env "''Finance''" "''How many?''" None]
  note c5 = c [THEN conjunct2, THEN conjunct2, THEN conjunct2, THEN conjunct2, THEN mp, OF h5]
  note c4 = c [THEN conjunct2, THEN conjunct2, THEN conjunct2, THEN conjunct1, THEN bspec,
               THEN mp, OF h4 h4']
  note d = C4_bounded_scan_not_found [of full_pages_env "''Sales''" "''How many?''" None,
               THEN conjunct1]
  have p: "listing_pages (snd ?full) = [1, 2, 3, 4, 5]"
    by (simp add: eval_simple_full_pages)
  from c5 c4 d p show ?thesis by blast
qed

subsection \<open>The built query\<close>

lemma candidates_cases:
  "(\<not> nullish (fieldsOf (Some md)) \<longrightarrow> candidates md = fieldsOf (Some md)) \<and>
   (nullish (fieldsOf (Some md)) \<and> \<not> nullish (fieldsOf (optProp ''result'' (Some md))) \<longrightarrow>
      candidates md = fieldsOf (optProp ''result'' (Some md))) \<and>
   (nullish (fieldsOf (Some md)) \<and> nullish (fieldsOf (optProp ''result'' (Some md))) \<and>
    \<not> nullish (fieldsOf (optProp ''data'' (Some md))) \<longrightarrow>
      candidates md = fieldsOf (optProp ''data'' (Some md))) \<and>
   (nullish (fieldsOf (Some md)) \<and> nullish (fieldsOf (optProp ''result'' (Some md))) \<and>
    nullish (fieldsOf (optProp ''data'' (Some md))) \<and>
    \<not> nullish (fieldsOf (optProp ''metadata'' (Some md))) \<longrightarrow>
      candidates md = fieldsOf (optProp ''metadata'' (Some md))) \<and>
   (nullish (fieldsOf (Some md)) \<and> nullish (fieldsOf (optProp ''result'' (Some md))) \<and>
    nullish (fieldsOf (optProp ''data'' (Some md))) \<and>
    nullish (fieldsOf (optProp ''metadata'' (Some md))) \<longrightarrow>
      candidates md = Some (JArr []))"
  by (simp add: candidates_def coalesce_def)

lemma orDefault_Some: "\<not> nullish (Some c) \<Longrightarrow> orDefault (Some c) d = c"
  by (cases c) simp_all

lemma orDefault_nullish: "nullish v \<Longrightarrow> orDefault v d = d"
  by (cases v rule: nullish.cases) simp_all

lemma nullish_Some: "nullish (Some c) \<longleftrightarrow> c = JNull"
  by (cases c) simp_all

lemma caption_cases:
  "(\<forall>f fs c. candidates md = Some (JArr (f # fs)) \<and>
              optProp ''fieldCaption'' (Some f) = Some c \<and> c \<noteq> JNull \<longrightarrow>
              extractFirstFieldCaption md = c) \<and>
   (\<forall>f fs n. candidates md = Some (JArr (f # fs)) \<and>
              nullish (optProp ''fieldCaption'' (Some f)) \<and>
              optProp ''name'' (Some f) = Some n \<and> n \<noteq> JNull \<longrightarrow>
              extractFirstFieldCaption md = n) \<and>
   (\<forall>f fs c. candidates md = Some (JArr (f # fs)) \<and>
              nullish (optProp ''fieldCaption'' (Some f)) \<and>
              nullish (optProp ''name'' (Some f)) \<and>
              optProp ''caption'' (Some f) = Some c \<and> c \<noteq> JNull \<longrightarrow>
              extractFirstFieldCaption md = c) \<and>
   (\<forall>f fs. candidates md = Some (JArr (f # fs)) \<and>
            nullish (optProp ''fieldCaption'' (Some f)) \<and>
            nullish (optProp ''name'' (Some f)) \<and>
            nullish (optProp ''caption'' (Some f)) \<longrightarrow>
            extractFirstFieldCaption md = JStr ''Number of Records'') \<and>
   ((\<forall>f fs. candidates md \<noteq> Some (JArr (f # fs))) \<longrightarrow>
      extractFirstFieldCaption md = JStr ''Number of Records'')"
proof (intro conjI allI impI)
  fix f fs c
  assume "candidates md = Some (JArr (f # fs)) \<and>
          optProp ''fieldCaption'' (Some f) = Some c \<and> c \<noteq> JNull"
  then show "extractFirstFieldCaption md = c"
    by (simp add: extractFirstFieldCaption_def coalesce_def nullish_Some orDefault_Some)
next
  fix f fs n
  assume "candidates md = Some (JArr (f # fs)) \<and>
          nullish (optProp ''fieldCaption'' (Some f)) \<and>
          optProp ''name'' (Some f) = Some n \<and> n \<noteq> JNull"
  then show "extractFirstFieldCaption md = n"
    by (simp add: extractFirstFieldCaption_def coalesce_def nullish_Some orDefault_Some)
next
  fix f fs c
  assume "candidates md = Some (JArr (f # fs)) \<and>
          nullish (optProp ''fieldCaption'' (Some f)) \<and>
          nullish (optProp ''name'' (Some f)) \<and>
          optProp ''caption'' (Some f) = Some c \<and> c \<noteq> JNull"
  then show "extractFirstFieldCaption md = c"
    by (simp add: extractFirstFieldCaption_def coalesce_def nullish_Some orDefault_Some)
next
  fix f fs
  assume "candidates md = Some (JArr (f # fs)) \<and>
          nullish (optProp ''fieldCaption'' (Some f)) \<and>
          nullish (optProp ''name'' (Some f)) \<and>
          nullish (optProp ''caption'' (Some f))"
  then show "extractFirstFieldCaption md = JStr ''Number of Records''"
    by (simp add: extractFirstFieldCaption_def coalesce_def orDefault_nullish)
next
  assume a: "\<forall>f fs. candidates md \<noteq> Some (JArr (f # fs))"
  have "firstElement (candidates md) = None"
  proof (cases "candidates md" rule: firstElement.cases)
    case (1 x xs)
    with a show ?thesis by simp
  qed simp_all
  then show "extractFirstFieldCaption md = JStr ''Number of Records''"
    by (simp add: extractFirstFieldCaption_def coalesce_def)
qed

text \<open>
  Claim C8, as stated: the built query counts over the caption of the first field the
  metadata reports, and over the literal \<^verbatim>\<open>Number of Records\<close> when the metadata is
  unavailable or empty. This fails in two ways. When the first field has a \<^verbatim>\<open>name\<close>
  and a \<^verbatim>\<open>caption\<close> but no \<^verbatim>\<open>fieldCaption\<close>, the query counts over the name, not
  the caption. When the metadata lists its fields as the array \<^verbatim>\<open>data\<close>, a shape the
  code does not try, the query counts over the literal although a field with a caption
  is reported.
\<close>

theorem C8_name_before_caption_counterexample:
  "readMetadata (metadata_env named_metadata) sales_datasource = Inr named_metadata \<and>
   optProp ''fields'' (Some named_metadata) =
     Some (JArr [JObj [(''name'', JStr ''region_id''), (''caption'', JStr ''Region'')]]) \<and>
   simpleTool (metadata_env named_metadata) ''Sales'' ''How many?'' None =
     (Inr (JObj [(''data'', JArr [])]),
      [ListDatasourcesCall 100 1, IsDatasourceAllowedCall ''ds-1'',
       ReadMetadataCall sales_datasource,
       ValidateFilterValuesCall (count_query (JStr ''region_id'') 20) sales_datasource,
       QueryDatasourceCall (simple_request (JStr ''region_id'') 20)]) \<and>
   JStr ''region_id'' \<noteq> JStr ''Region'' \<and>
   readMetadata (metadata_env bare_metadata) sales_datasource = Inr bare_metadata \<and>
   optProp ''data'' (Some bare_metadata) =
     Some (JArr [JObj [(''fieldCaption'', JStr ''Region'')]]) \<and>
   simpleTool (metadata_env bare_metadata) ''Sales'' ''How many?'' None =
     (Inr (JObj [(''data'', JArr [])]),
      [ListDatasourcesCall 100 1, IsDatasourceAllowedCall ''ds-1'',
       ReadMetadataCall sales_datasource,
       ValidateFilterValuesCall (count_query (JStr ''Number of Records'') 20) sales_datasource,
       QueryDatasourceCall (simple_request (JStr ''Number of Records'') 20)])"
proof -
  have 1: "optProp ''fields'' (Some named_metadata) =
     Some (JArr [JObj [(''name'', JStr ''region_id''), (''caption'', JStr ''Region'')]])"
    by (simp add: named_metadata_def)
  have 2: "optProp ''data'' (Some bare_metadata) =
     Some (JArr [JObj [(''fieldCaption'', JStr ''Region'')]])"
    by (simp add: bare_metadata_def)
  have 3: "JStr ''region_id'' \<noteq> JStr ''Region''" by simp
  show ?thesis
    unfolding eval_simple_metadata_env caption_examples metadata_env_fields
    using 1 2 3 by (simp add: rowLimitOf_def)
qed

text \<open>
  Claim C8, amended: in every invocation of the natural-language tool in which the name
  resolves to a datasource with an identifier, the datasource is allowed and the
  metadata read succeeds, a query is built and handed on (to the validator, to the
  remote query, or to both), and every query handed on is this one: exactly one field,
  with function \<^verbatim>\<open>COUNT\<close> and alias \<^verbatim>\<open>Total Records\<close>, no filters, and the row limit
  the caller gave, or 20 when none was given. The field's caption is found thus. The
  field list is the first of \<^verbatim>\<open>fields\<close>, \<^verbatim>\<open>result.fields\<close>, \<^verbatim>\<open>data.fields\<close> and
  \<^verbatim>\<open>metadata.fields\<close> of the metadata that is neither \<^verbatim>\<open>null\<close> nor \<^verbatim>\<open>undefined\<close>, and
  the empty list when there is none. If the field list is an array with a first element,
  the caption is the first of that element's \<^verbatim>\<open>fieldCaption\<close>, \<^verbatim>\<open>name\<close> and
  \<^verbatim>\<open>caption\<close> that is neither \<^verbatim>\<open>null\<close> nor \<^verbatim>\<open>undefined\<close>, and the literal
  \<^verbatim>\<open>Number of Records\<close> when there is none. If the field list is not an array or is
  empty, the caption is the literal \<^verbatim>\<open>Number of Records\<close>.
\<close>

theorem C8_count_query_and_caption_rule:
  assumes "fst (resolveDatasource env datasourceName) = Inr v"
    and "luidOrId v = Some l" and "l \<noteq> []"
    and "isDatasourceAllowed env l = Allowed"
    and "readMetadata env \<lparr>datasourceLuid = l, connections = None\<rparr> = Inr md"
  shows "(\<exists>r. query r =
           \<lparr>q_fields = [\<lparr>fieldCaption = extractFirstFieldCaption md, func = Some ''COUNT'',
                         fieldAlias = Some ''Total Records''\<rparr>],
            q_filters = None,
            q_limit = Some (case limit of Some n \<Rightarrow> n | None \<Rightarrow> 20)\<rparr> \<and>
         datasourceLuid (datasource r) = l \<and>
         (QueryDatasourceCall r \<in> set (snd (simpleTool env datasourceName question limit)) \<or>
          ValidateFilterValuesCall (query r) (datasource r)
            \<in> set (snd (simpleTool env datasourceName question limit))) \<and>
         (\<forall>r'. QueryDatasourceCall r' \<in> set (snd (simpleTool env datasourceName question limit))
               \<longrightarrow> r' = r) \<and>
         (\<forall>q' d'. ValidateFilterValuesCall q' d'
                     \<in> set (snd (simpleTool env datasourceName question limit))
               \<longrightarrow> q' = query r)) \<and>
   (\<not> nullish (fieldsOf (Some md)) \<longrightarrow> candidates md = fieldsOf (Some md)) \<and>
   (nullish (fieldsOf (Some md)) \<and> \<not> nullish (fieldsOf (optProp ''result'' (Some md))) \<longrightarrow>
      candidates md = fieldsOf (optProp ''result'' (Some md))) \<and>
   (nullish (fieldsOf (Some md)) \<and> nullish (fieldsOf (optProp ''result'' (Some md))) \<and>
    \<not> nullish (fieldsOf (optProp ''data'' (Some md))) \<longrightarrow>
      candidates md = fieldsOf (optProp ''data'' (Some md))) \<and>
   (nullish (fieldsOf (Some md)) \<and> nullish (fieldsOf (optProp ''result'' (Some md))) \<and>
    nullish (fieldsOf (optProp ''data'' (Some md))) \<and>
    \<not> nullish (fieldsOf (optProp ''metadata'' (Some md))) \<longrightarrow>
      candidates md = fieldsOf (optProp ''metadata'' (Some md))) \<and>
   (nullish (fieldsOf (Some md)) \<and> nullish (fieldsOf (optProp ''result'' (Some md))) \<and>
    nullish (fieldsOf (optProp ''data'' (Some md))) \<and>
    nullish (fieldsOf (optProp ''metadata'' (Some md))) \<longrightarrow>
      candidates md = Some (JArr [])) \<and>
   (\<forall>f fs c. candidates md = Some (JArr (f # fs)) \<and>
              optProp ''fieldCaption'' (Some f) = Some c \<and> c \<noteq> JNull \<longrightarrow>
              extractFirstFieldCaption md = c) \<and>
   (\<forall>f fs n. candidates md = Some (JArr (f # fs)) \<and>
              nullish (optProp ''fieldCaption'' (Some f)) \<and>
              optProp ''name'' (Some f) = Some n \<and> n \<noteq> JNull \<longrightarrow>
              extractFirstFieldCaption md = n) \<and>
   (\<forall>f fs c. candidates md = Some (JArr (f # fs)) \<and>
              nullish (optProp ''fieldCaption'' (Some f)) \<and>
              nullish (optProp ''name'' (Some f)) \<and>
              optProp ''caption'' (Some f) = Some c \<and> c \<noteq> JNull \<longrightarrow>
              extractFirstFieldCaption md = c) \<and>
   (\<forall>f fs. candidates md = Some (JArr (f # fs)) \<and>
            nullish (optProp ''fieldCaption'' (Some f)) \<and>
            nullish (optProp ''name'' (Some f)) \<and>
            nullish (optProp ''caption'' (Some f)) \<longrightarrow>
            extractFirstFieldCaption md = JStr ''Number of Records'') \<and>
   ((\<forall>f fs. candidates md \<noteq> Some (JArr (f # fs))) \<longrightarrow>
      extractFirstFieldCaption md = JStr ''Number of Records'')"
proof -
  let ?calls = "snd (simpleTool env datasourceName question limit)"
  let ?d = "\<lparr>datasourceLuid = l, connections = None\<rparr>"
  from simple_pipeline_built [OF assms(4) assms(5), of question "rowLimitOf limit"] obtain r where
    q: "query r = buildQueryFromQuestion question (extractFirstFieldCaption md) (rowLimitOf limit)"
    and dl: "datasourceLuid (datasource r) = l"
    and p: "simple_pipeline env question (rowLimitOf limit) l =
              (fst (simple_callback env r),
               IsDatasourceAllowedCall l # ReadMetadataCall ?d # snd (simple_callback env r))"
    by blast
  have calls: "?calls = snd (resolveDatasource env datasourceName) @
                 IsDatasourceAllowedCall l # ReadMetadataCall ?d # snd (simple_callback env r)"
    by (simp add: simpleTool_resolved [OF assms(1) assms(2) assms(3)] p)
  have Q: "query r =
           \<lparr>q_fields = [\<lparr>fieldCaption = extractFirstFieldCaption md, func = Some ''COUNT'',
                         fieldAlias = Some ''Total Records''\<rparr>],
            q_filters = None,
            q_limit = Some (case limit of Some n \<Rightarrow> n | None \<Rightarrow> 20)\<rparr>"
    by (simp add: q buildQueryFromQuestion_def rowLimitOf_def)
  have T: "(QueryDatasourceCall r \<in> set ?calls \<or>
            ValidateFilterValuesCall (query r) (datasource r) \<in> set ?calls) \<and>
           (\<forall>r'. QueryDatasourceCall r' \<in> set ?calls \<longrightarrow> r' = r) \<and>
           (\<forall>q' d'. ValidateFilterValuesCall q' d' \<in> set ?calls \<longrightarrow> q' = query r)"
    unfolding calls
    by (auto simp: simple_callback_calls dest: resolveDatasource_listing_only
             split: if_splits sum.splits)
  from Q dl T have A: "(\<exists>r. query r =
           \<lparr>q_fields = [\<lparr>fieldCaption = extractFirstFieldCaption md, func = Some ''COUNT'',
                         fieldAlias = Some ''Total Records''\<rparr>],
            q_filters = None,
            q_limit = Some (case limit of Some n \<Rightarrow> n | None \<Rightarrow> 20)\<rparr> \<and>
         datasourceLuid (datasource r) = l \<and>
         (QueryDatasourceCall r \<in> set (snd (simpleTool env datasourceName question limit)) \<or>
          ValidateFilterValuesCall (query r) (datasource r)
            \<in> set (snd (simpleTool env datasourceName question limit))) \<and>
         (\<forall>r'. QueryDatasourceCall r' \<in> set (snd (simpleTool env datasourceName question limit))
               \<longrightarrow> r' = r) \<and>
         (\<forall>q' d'. ValidateFilterValuesCall q' d'
                     \<in> set (snd (simpleTool env datasourceName question limit))
               \<longrightarrow> q' = query r))"
    by blast
  from A candidates_cases [of md] caption_cases [of md] show ?thesis by blast
qed

theorem C8_count_query_and_caption_rule_witness:
  "(\<exists>r. query r = count_query (JStr ''Region'') 5 \<and>
        datasourceLuid (datasource r) = ''ds-1'' \<and>
        (QueryDatasourceCall r
           \<in> set (snd (simpleTool (metadata_env example_metadata) ''Sales'' ''How many?'' (Some 5))) \<or>
         ValidateFilterValuesCall (query r) (datasource r)
           \<in> set (snd (simpleTool (metadata_env example_metadata) ''Sales'' ''How many?'' (Some 5))))) \<and>
   extractFirstFieldCaption example_metadata = JStr ''Region'' \<and>
   extractFirstFieldCaption named_metadata = JStr ''region_id'' \<and>
   extractFirstFieldCaption result_metadata = JStr ''Region'' \<and>
   extractFirstFieldCaption data_metadata = JStr ''Number of Records'' \<and>
   extractFirstFieldCaption nested_metadata = JStr ''Region'' \<and>
   extractFirstFieldCaption bare_metadata = JStr ''Number of Records''"
proof -
  have h1: "fst (resolveDatasource (metadata_env md) ''Sales'') = Inr sales_item" for md
    by (simp add: metadata_env_resolves)
  have h2: "luidOrId sales_item = Some ''ds-1''"
    by (simp add: luidOrId_def sales_item_def)
  have h3: "''ds-1'' \<noteq> []" by simp
  have h4: "isDatasourceAllowed (metadata_env md) ''ds-1'' = Allowed" for md
    by (simp add: metadata_env_fields)
  have h5: "readMetadata (metadata_env md) \<lparr>datasourceLuid = ''ds-1'', connections = None\<rparr> = Inr md"
    for md by (simp add: metadata_env_fields)
  note rule = C8_count_query_and_caption_rule [OF h1 h2 h3 h4 h5]
  note top = rule [THEN conjunct2, THEN conjunct1, THEN mp]
  note res = rule [THEN conjunct2, THEN conjunct2, THEN conjunct1, THEN mp]
  note dat = rule [THEN conjunct2, THEN conjunct2, THEN conjunct2, THEN conjunct1, THEN mp]
  note nes = rule [THEN conjunct2, THEN conjunct2, THEN conjunct2, THEN conjunct2, THEN conjunct1, THEN mp]
  note non = rule [THEN conjunct2, THEN conjunct2, THEN conjunct2, THEN conjunct2, THEN conjunct2, THEN conjunct1, THEN mp]
  note by_fieldCaption = rule [THEN conjunct2, THEN conjunct2, THEN conjunct2, THEN conjunct2, THEN conjunct2, THEN conjunct2, THEN conjunct1, rule_format]
  note by_name = rule [THEN conjunct2, THEN conjunct2, THEN conjunct2, THEN conjunct2, THEN conjunct2, THEN conjunct2, THEN conjunct2, THEN conjunct1, rule_format]
  note by_caption = rule [THEN conjunct2, THEN conjunct2, THEN conjunct2, THEN conjunct2, THEN conjunct2, THEN conjunct2, THEN conjunct2, THEN conjunct2, THEN conjunct1, rule_format]
  note no_key = rule [THEN conjunct2, THEN conjunct2, THEN conjunct2, THEN conjunct2, THEN conjunct2, THEN conjunct2, THEN conjunct2, THEN conjunct2, THEN conjunct2, THEN conjunct1, rule_format]
  note no_first = rule [THEN conjunct2, THEN conjunct2, THEN conjunct2, THEN conjunct2, THEN conjunct2, THEN conjunct2, THEN conjunct2, THEN conjunct2, THEN conjunct2, THEN conjunct2, THEN mp]

  have "\<not> nullish (fieldsOf (Some example_metadata))"
    by (simp add: example_metadata_def)
  from top [OF this] have "candidates example_metadata =
      Some (JArr (JObj [(''fieldCaption'', JStr ''Region'')] #
                  [JObj [(''fieldCaption'', JStr ''Profit'')]])) \<and>
      optProp ''fieldCaption'' (Some (JObj [(''fieldCaption'', JStr ''Region'')])) =
        Some (JStr ''Region'') \<and> JStr ''Region'' \<noteq> JNull"
    by (simp add: example_metadata_def)
  note e = by_fieldCaption [OF this]

  have "\<not> nullish (fieldsOf (Some named_metadata))"
    by (simp add: named_metadata_def)
  from top [OF this] have "candidates named_metadata =
      Some (JArr (JObj [(''name'', JStr ''region_id''), (''caption'', JStr ''Region'')] # [])) \<and>
      nullish (optProp ''fieldCaption''
                 (Some (JObj [(''name'', JStr ''region_id''), (''caption'', JStr ''Region'')]))) \<and>
      optProp ''name'' (Some (JObj [(''name'', JStr ''region_id''), (''caption'', JStr ''Region'')])) =
        Some (JStr ''region_id'') \<and> JStr ''region_id'' \<noteq> JNull"
    by (simp add: named_metadata_def)
  note n = by_name [OF this]

  have "nullish (fieldsOf (Some result_metadata)) \<and>
        \<not> nullish (fieldsOf (optProp ''result'' (Some result_metadata)))"
    by (simp add: result_metadata_def)
  from res [OF this] have "candidates result_metadata =
      Some (JArr (JObj [(''caption'', JStr ''Region'')] # [])) \<and>
      nullish (optProp ''fieldCaption'' (Some (JObj [(''caption'', JStr ''Region'')]))) \<and>
      nullish (optProp ''name'' (Some (JObj [(''caption'', JStr ''Region'')]))) \<and>
      optProp ''caption'' (Some (JObj [(''caption'', JStr ''Region'')])) = Some (JStr ''Region'') \<and>
      JStr ''Region'' \<noteq> JNull"
    by (simp add: result_metadata_def)
  note r = by_caption [OF this]

  have "nullish (fieldsOf (Some data_metadata)) \<and>
        nullish (fieldsOf (optProp ''result'' (Some data_metadata))) \<and>
        \<not> nullish (fieldsOf (optProp ''data'' (Some data_metadata)))"
    by (simp add: data_metadata_def)
  from dat [OF this] have "candidates data_metadata =
      Some (JArr (JObj [(''fieldName'', JStr ''region_id'')] # [])) \<and>
      nullish (optProp ''fieldCaption'' (Some (JObj [(''fieldName'', JStr ''region_id'')]))) \<and>
      nullish (optProp ''name'' (Some (JObj [(''fieldName'', JStr ''region_id'')]))) \<and>
      nullish (optProp ''caption'' (Some (JObj [(''fieldName'', JStr ''region_id'')])))"
    by (simp add: data_metadata_def)
  note d = no_key [OF this]

  have "nullish (fieldsOf (Some nested_metadata)) \<and>
        nullish (fieldsOf (optProp ''result'' (Some nested_metadata))) \<and>
        nullish (fieldsOf (optProp ''data'' (Some nested_metadata))) \<and>
        \<not> nullish (fieldsOf (optProp ''metadata'' (Some nested_metadata)))"
    by (simp add: nested_metadata_def)
  from nes [OF this] have "candidates nested_metadata =
      Some (JArr (JObj [(''fieldCaption'', JStr ''Region'')] # [])) \<and>
      optProp ''fieldCaption'' (Some (JObj [(''fieldCaption'', JStr ''Region'')])) =
        Some (JStr ''Region'') \<and> JStr ''Region'' \<noteq> JNull"
    by (simp add: nested_metadata_def)
  note m = by_fieldCaption [OF this]

  have "nullish (fieldsOf (Some bare_metadata)) \<and>
        nullish (fieldsOf (optProp ''result'' (Some bare_metadata))) \<and>
        nullish (fieldsOf (optProp ''data'' (Some bare_metadata))) \<and>
        nullish (fieldsOf (optProp ''metadata'' (Some bare_metadata)))"
    by (simp add: bare_metadata_def)
  from non [OF this] have "\<forall>f fs. candidates bare_metadata \<noteq> Some (JArr (f # fs))"
    by simp
  note b = no_first [OF this]

  have lim: "(case Some (5::int) of Some n \<Rightarrow> n | None \<Rightarrow> 20) = 5" by simp
  note q = rule [where md = example_metadata and question = "''How many?''" and limit = "Some 5",
                 THEN conjunct1, unfolded e lim, folded count_query_def]
  from q have t: "\<exists>r. query r = count_query (JStr ''Region'') 5 \<and>
        datasourceLuid (datasource r) = ''ds-1'' \<and>
        (QueryDatasourceCall r
           \<in> set (snd (simpleTool (metadata_env example_metadata) ''Sales'' ''How many?'' (Some 5))) \<or>
         ValidateFilterValuesCall (query r) (datasource r)
           \<in> set (snd (simpleTool (metadata_env example_metadata) ''Sales'' ''How many?'' (Some 5))))"
    by blast
  from t e n r d m b show ?thesis by blast
qed

end
